theory Spec2Isabelle
  imports Complex_Main
begin

section \<open>The matching and scoring engine of the resume generator\<close>

text \<open>
  A shallow embedding of \<^verbatim>\<open>src/matcher\<close> (technology matcher, job normalizer, scorers,
  selector) and of the type declarations it reads.

  Conventions of the embedding.
  \<^item> A JavaScript \<^verbatim>\<open>number\<close> that holds a score, a weight or a ratio is a \<^typ>\<open>real\<close>.
    The sub-scores, the project, achievement and skill scores and the coverage percent are
    computed in exact arithmetic; the values of the code are those of the operations on
    doubles and differ from the exact ones by their rounding (where the exact coverage
    percent is half an integer, the one of the code can be the integer below). The total
    score of a job is the one score that is a sum of products and is not capped: it is
    computed with the rounding of IEEE 754 doubles (\<open>weightedTotal\<close>), and what is proved
    of it holds for all sub-scores between 0 and 1, rounded or not. A number
    that counts (list lengths, the configured minimum and maximum counts, a team size) is a
    \<^typ>\<open>nat\<close>, a calendar year is an \<^typ>\<open>int\<close>. In the functions modelled here the one
    place where well-typed input can produce \<^verbatim>\<open>NaN\<close> is \<^verbatim>\<open>parseInt\<close> in \<^verbatim>\<open>getJobEndYear\<close>;
    there a number is an \<open>option\<close>, and \<open>None\<close> is \<^verbatim>\<open>NaN\<close>.
  \<^item> A string is a \<^typ>\<open>string\<close>; case conversion and the whitespace class are those of
    ASCII.
  \<^item> An optional field \<^verbatim>\<open>f?: T\<close> is a field of type \<open>T option\<close>.
  \<^item> \<^verbatim>\<open>new Date().getFullYear()\<close> is the parameter \<open>currentYear\<close> of the functions that
    read the clock.
\<close>

subsection \<open>Strings\<close>

definition toLowerChar :: "char \<Rightarrow> char" where
  "toLowerChar c =
     (case map_of (zip ''ABCDEFGHIJKLMNOPQRSTUVWXYZ'' ''abcdefghijklmnopqrstuvwxyz'') c of
        Some l \<Rightarrow> l
      | None \<Rightarrow> c)"

definition toUpperChar :: "char \<Rightarrow> char" where
  "toUpperChar c =
     (case map_of (zip ''abcdefghijklmnopqrstuvwxyz'' ''ABCDEFGHIJKLMNOPQRSTUVWXYZ'') c of
        Some u \<Rightarrow> u
      | None \<Rightarrow> c)"

definition toLowerCase :: "string \<Rightarrow> string" where
  "toLowerCase s = map toLowerChar s"

text \<open>The class \<^verbatim>\<open>\s\<close>: space, tab, line feed, vertical tab, form feed, carriage return.\<close>

definition isWhitespace :: "char \<Rightarrow> bool" where
  "isWhitespace c = (c \<in> set [CHR '' '', CHR 0x09, CHR 0x0A, CHR 0x0B, CHR 0x0C, CHR 0x0D])"

definition isDigit :: "char \<Rightarrow> bool" where
  "isDigit c = (c \<in> set ''0123456789'')"

definition trim :: "string \<Rightarrow> string" where
  "trim s = rev (dropWhile isWhitespace (rev (dropWhile isWhitespace s)))"

fun startsWith :: "string \<Rightarrow> string \<Rightarrow> bool" where
  "startsWith s [] = True"
| "startsWith [] (c # cs) = False"
| "startsWith (x # xs) (c # cs) = (x = c \<and> startsWith xs cs)"

text \<open>\<^verbatim>\<open>s.includes(sub)\<close>: \<open>sub\<close> occurs in \<open>s\<close> as a contiguous substring.\<close>

fun includesStr :: "string \<Rightarrow> string \<Rightarrow> bool" where
  "includesStr [] sub = (sub = [])"
| "includesStr (x # xs) sub = (startsWith (x # xs) sub \<or> includesStr xs sub)"

text \<open>\<^verbatim>\<open>tech.charAt(0).toUpperCase() + tech.slice(1)\<close>\<close>

fun capitalizeFirst :: "string \<Rightarrow> string" where
  "capitalizeFirst [] = []"
| "capitalizeFirst (c # cs) = toUpperChar c # cs"

text \<open>\<^verbatim>\<open>xs.join(sep)\<close>\<close>

fun join :: "string \<Rightarrow> string list \<Rightarrow> string" where
  "join sep [] = []"
| "join sep [x] = x"
| "join sep (x # y # ys) = x @ sep @ join sep (y # ys)"

subsection \<open>Technology matcher (\<^verbatim>\<open>technology-matcher.ts\<close>)\<close>

definition TECH_ALIASES :: "(string \<times> string list) list" where
  "TECH_ALIASES =
    [(''JavaScript'', [''JS'', ''javascript'', ''es6'', ''ecmascript'', ''es2015'', ''es2020'']),
     (''TypeScript'', [''TS'', ''typescript'']),
     (''React Native'', [''react-native'', ''RN'', ''reactnative'']),
     (''React'', [''reactjs'', ''react.js'']),
     (''Node.js'', [''nodejs'', ''node'', ''node.js'']),
     (''Next.js'', [''nextjs'', ''next.js'', ''next'']),
     (''Swift'', [''swift'', ''ios'']),
     (''Kotlin'', [''kotlin'', ''android'']),
     (''Objective-C'', [''objc'', ''objective-c'', ''obj-c'']),
     (''PostgreSQL'', [''postgres'', ''postgresql'', ''psql'', ''pg'']),
     (''MongoDB'', [''mongo'', ''mongodb'']),
     (''MySQL'', [''mysql'']),
     (''Redis'', [''redis'']),
     (''Docker'', [''docker'', ''containers'']),
     (''Kubernetes'', [''k8s'', ''kubernetes'', ''kube'']),
     (''AWS'', [''aws'', ''amazon web services'', ''s3'', ''ec2'', ''lambda'']),
     (''GCP'', [''gcp'', ''google cloud'', ''google cloud platform'']),
     (''Azure'', [''azure'', ''microsoft azure'']),
     (''GitHub Actions'', [''github actions'', ''gha'', ''github-actions'']),
     (''GitLab CI'', [''gitlab ci'', ''gitlab-ci'', ''gitlab pipelines'']),
     (''CircleCI'', [''circleci'', ''circle ci'', ''circle-ci'']),
     (''Fastlane'', [''fastlane'']),
     (''Firebase'', [''firebase'', ''firestore'']),
     (''GraphQL'', [''graphql'', ''gql'']),
     (''REST'', [''rest'', ''restful'', ''rest api'']),
     (''UIKit'', [''uikit'', ''ui kit'']),
     (''SwiftUI'', [''swiftui'', ''swift ui'']),
     (''Jetpack Compose'', [''jetpack compose'', ''compose'', ''android compose'']),
     (''Jest'', [''jest'']),
     (''Cypress'', [''cypress'']),
     (''XCTest'', [''xctest'', ''xcode testing'']),
     (''Expo'', [''expo'', ''expo-cli'', ''eas'']),
     (''NestJS'', [''nestjs'', ''nest.js'', ''nest'']),
     (''Fastify'', [''fastify'']),
     (''Express'', [''express'', ''expressjs'', ''express.js'']),
     (''Python'', [''python'', ''py'', ''python3'']),
     (''Go'', [''golang'', ''go'']),
     (''Rust'', [''rust'', ''rustlang'']),
     (''Ruby'', [''ruby'', ''rails'', ''ruby on rails'']),
     (''Java'', [''java'', ''jvm'']),
     (''SQLite'', [''sqlite'', ''sqlite3'']),
     (''Supabase'', [''supabase'']),
     (''Heroku'', [''heroku'']),
     (''Dokku'', [''dokku'']),
     (''Ansible'', [''ansible'']),
     (''Terraform'', [''terraform'', ''tf''])]"

text \<open>
  The loop over \<^verbatim>\<open>Object.entries(TECH_ALIASES)\<close> returns at the first entry, in the order
  of the table, whose alias list holds the lower-cased and trimmed input or whose canonical
  name lower-cased equals it.
\<close>

definition normalizeTechName :: "string \<Rightarrow> string" where
  "normalizeTechName tech =
     (let lower = trim (toLowerCase tech) in
      case find (\<lambda>(canonical, aliases). lower \<in> set aliases \<or> toLowerCase canonical = lower)
             TECH_ALIASES of
        Some (canonical, aliases) \<Rightarrow> canonical
      | None \<Rightarrow> capitalizeFirst tech)"

text \<open>\<^verbatim>\<open>norm.replace(/[.\-_\s]/g, '')\<close>\<close>

definition stripSeparators :: "string \<Rightarrow> string" where
  "stripSeparators s =
     filter (\<lambda>c. \<not> (c = CHR ''.'' \<or> c = CHR ''-'' \<or> c = CHR ''_'' \<or> isWhitespace c)) s"

definition techMatches :: "string \<Rightarrow> string \<Rightarrow> bool" where
  "techMatches tech1 tech2 =
     (let norm1 = toLowerCase (normalizeTechName tech1);
          norm2 = toLowerCase (normalizeTechName tech2) in
      if norm1 = norm2 then True
      else if includesStr norm1 norm2 \<or> includesStr norm2 norm1 then True
      else stripSeparators norm1 = stripSeparators norm2)"

record MatchingTechs =
  matched :: "string list"
  missing :: "string list"

definition findMatchingTechs :: "string list \<Rightarrow> string list \<Rightarrow> MatchingTechs" where
  "findMatchingTechs candidateTechs requiredTechs =
     \<lparr> matched = map normalizeTechName
                   (filter (\<lambda>required. list_ex (\<lambda>c. techMatches c required) candidateTechs)
                      requiredTechs),
       missing = map normalizeTechName
                   (filter (\<lambda>required. \<not> list_ex (\<lambda>c. techMatches c required) candidateTechs)
                      requiredTechs) \<rparr>"

record TechCoverage =
  requiredCoverage :: real
  preferredCoverage :: real
  overallCoverage :: real
  matchedRequired :: "string list"
  matchedPreferred :: "string list"

definition calculateTechCoverage ::
    "string list \<Rightarrow> string list \<Rightarrow> string list \<Rightarrow> TechCoverage" where
  "calculateTechCoverage candidateTechs requiredTechs preferredTechs =
     (let reqResult = findMatchingTechs candidateTechs requiredTechs;
          prefResult = findMatchingTechs candidateTechs preferredTechs;
          requiredCoverage =
            (if length requiredTechs > 0
             then real (length (matched reqResult)) / real (length requiredTechs) else 1);
          preferredCoverage =
            (if length preferredTechs > 0
             then real (length (matched prefResult)) / real (length preferredTechs) else 1)
      in \<lparr> requiredCoverage = requiredCoverage,
           preferredCoverage = preferredCoverage,
           overallCoverage = requiredCoverage * 0.7 + preferredCoverage * 0.3,
           matchedRequired = matched reqResult,
           matchedPreferred = matched prefResult \<rparr>)"

subsection \<open>Data model (\<^verbatim>\<open>types/job.ts\<close>, \<^verbatim>\<open>types/profile.ts\<close>, \<^verbatim>\<open>types/analyzer.ts\<close>,
  \<^verbatim>\<open>types/matcher.ts\<close>)\<close>

text \<open>
  Field names are those of the interfaces, prefixed with the name of the interface where two
  interfaces share a field name. The string unions \<^verbatim>\<open>RoleLevel\<close>, \<^verbatim>\<open>SeniorityLevel\<close>,
  \<^verbatim>\<open>JobDomain\<close>, \<^verbatim>\<open>CompanyType\<close> and \<^verbatim>\<open>AchievementCategory\<close> are strings, as they are at
  run time in records read from JSON.
\<close>

record Company =
  company_name :: string
  company_industry :: "string option"
  company_size :: "string option"
  company_stage :: "string option"
  company_description :: "string option"
  company_website :: "string option"
  company_location :: "string option"

record Role =
  role_title :: string
  role_level :: "string option"
  role_type :: "string option"
  role_department :: "string option"
  role_reportingTo :: "string option"
  role_teamSize :: "nat option"
  role_directReports :: "nat option"

record Duration =
  duration_start :: string
  duration_end :: "string option"
  duration_totalMonths :: "nat option"

record Responsibilities =
  resp_primary :: "string list option"
  resp_secondary :: "string list option"
  resp_leadership :: "string list option"
  resp_technical :: "string list option"
  resp_business :: "string list option"

record Project =
  project_name :: string
  project_description :: "string option"
  project_role :: "string option"
  project_duration :: "string option"
  project_technologies :: "string list option"
  project_impact :: "string option"
  project_teamSize :: "nat option"
  project_challenges :: "string list option"
  project_solutions :: "string list option"

record Technologies =
  tech_languages :: "string list option"
  tech_frameworks :: "string list option"
  tech_databases :: "string list option"
  tech_cloud :: "string list option"
  tech_devops :: "string list option"
  tech_tools :: "string list option"
  tech_mobile :: "string list option"
  tech_testing :: "string list option"

record Achievement =
  achievement_description :: string
  achievement_impact :: "string option"
  achievement_metrics :: "string option"
  achievement_category :: "string option"
  achievement_quantifiable :: "bool option"

record Keywords =
  keywords_jobTitles :: "string list option"
  keywords_domains :: "string list option"
  keywords_buzzwords :: "string list option"
  keywords_certifications :: "string list option"

record RelevanceWeights =
  weight_mobile :: "real option"
  weight_web :: "real option"
  weight_backend :: "real option"
  weight_frontend :: "real option"
  weight_fullstack :: "real option"
  weight_leadership :: "real option"
  weight_startup :: "real option"
  weight_enterprise :: "real option"

record JobSkills =
  skills_developed :: "string list option"
  skills_strengthened :: "string list option"
  skills_applied :: "string list option"

record JobContext =
  context_businessContext :: "string option"
  context_challenges :: "string list option"
  context_constraints :: "string list option"
  context_stakeholders :: "string list option"
  context_methodology :: "string option"
  context_workStyle :: "string option"

record EnhancedJob =
  enhanced_company :: Company
  enhanced_role :: Role
  enhanced_duration :: Duration
  enhanced_responsibilities :: "Responsibilities option"
  enhanced_projects :: "Project list option"
  enhanced_technologies :: "Technologies option"
  enhanced_achievements :: "Achievement list option"
  enhanced_skills :: "JobSkills option"
  enhanced_context :: "JobContext option"
  enhanced_keywords :: "Keywords option"
  enhanced_relevanceWeights :: "RelevanceWeights option"

text \<open>
  \<^verbatim>\<open>BasicJob\<close>, with the legacy fields \<^verbatim>\<open>normalizeBasicJob\<close> reads through its cast
  (\<^verbatim>\<open>duration\<close>, \<^verbatim>\<open>description\<close>). \<^verbatim>\<open>startDate\<close>, \<^verbatim>\<open>location\<close> are optional because the
  code reads them with \<^verbatim>\<open>??\<close>.
\<close>

record BasicJob =
  basic_company :: string
  basic_companyDescription :: "string option"
  basic_position :: string
  basic_location :: "string option"
  basic_startDate :: "string option"
  basic_endDate :: "string option"
  basic_duration :: "Duration option"
  basic_technologies :: "string list option"
  basic_clients :: "string list option"
  basic_achievements :: "string list option"
  basic_description :: "string list option"

text \<open>
  A job record as it arrives from JSON. \<^verbatim>\<open>isEnhancedJob\<close> and \<^verbatim>\<open>isBasicJob\<close> test
  \<^verbatim>\<open>typeof job.company\<close>; the first two constructors are the two interfaces of the union
  \<^verbatim>\<open>Job\<close>, the third is a record whose \<^verbatim>\<open>company\<close> field is neither an object nor a
  string (its value is kept: \<^verbatim>\<open>typeof null\<close> is \<^verbatim>\<open>'object'\<close>).
\<close>

datatype JsOther = JsUndefined | JsNull | JsNumber real | JsBoolean bool

datatype Job = Enhanced EnhancedJob | Basic BasicJob | OtherCompany JsOther

datatype JsType = TypeObject | TypeString | TypeUndefined | TypeNumber | TypeBoolean

record NormalizedJob =
  companyName :: string
  companyDescription :: "string option"
  companyInfo :: "Company option"
  title :: string
  level :: "string option"
  location :: string
  startDate :: string
  endDate :: "string option"
  technologies :: "string list"
  projects :: "Project list"
  achievements :: "Achievement list"
  responsibilities :: "string list"
  relevanceWeights :: "RelevanceWeights option"
  job_keywords :: "Keywords option"
  workStyle :: "string option"

record JobRequirements =
  req_title :: string
  seniority :: string
  department :: "string option"
  req_companyName :: "string option"
  companyType :: "string option"
  domain :: "string option"
  req_location :: "string option"
  workArrangement :: "string option"
  requiredTechnologies :: "string list"
  preferredTechnologies :: "string list"
  yearsExperience :: "nat option"
  keyResponsibilities :: "string list"
  leadershipRequired :: bool
  req_teamSize :: "string option"
  mentorshipExpected :: bool
  req_keywords :: "string list"
  buzzwords :: "string list"

datatype SkillLevel = beginner | intermediate | advanced | expert

record Skill =
  skill_name :: string
  skill_level :: SkillLevel
  yearsUsed :: real
  lastUsed :: int
  wantToUse :: bool
  skill_keywords :: "string list option"

text \<open>
  \<^verbatim>\<open>SkillsData.categories\<close> is read with \<^verbatim>\<open>Object.values\<close>, in the order of the keys of
  the object: an association list.
\<close>

record SkillsData =
  categories :: "(string \<times> Skill list) list"
  featured :: "string list"
  deprecated :: "string list"

record Weights =
  w_technology :: real
  w_domain :: real
  w_seniority :: real
  w_recency :: real
  w_relevance :: real

record MatchConfig =
  weights :: Weights
  recencyDecay :: real
  minProjectsToShow :: nat
  maxProjectsToShow :: nat
  minAchievementsToShow :: nat
  maxAchievementsToShow :: nat
  minSkillsToShow :: nat
  maxSkillsToShow :: nat

definition DEFAULT_MATCH_CONFIG :: MatchConfig where
  "DEFAULT_MATCH_CONFIG =
     \<lparr> weights = \<lparr> w_technology = 0.35, w_domain = 0.20, w_seniority = 0.15,
                   w_recency = 0.15, w_relevance = 0.15 \<rparr>,
       recencyDecay = 0.1,
       minProjectsToShow = 2, maxProjectsToShow = 5,
       minAchievementsToShow = 3, maxAchievementsToShow = 8,
       minSkillsToShow = 8, maxSkillsToShow = 15 \<rparr>"

record Scores =
  technologyMatch :: real
  domainMatch :: real
  seniorityMatch :: real
  recency :: "real option"
  relevanceWeight :: real

record JobScore =
  jobId :: string
  score_companyName :: string
  score_title :: string
  scores :: Scores
  totalScore :: "real option"
  matchedTechnologies :: "string list"
  missingTechnologies :: "string list"
  matchedKeywords :: "string list"

record ScoredProject =
  sp_project :: Project
  sp_score :: real
  sp_matchedTechnologies :: "string list"
  sp_relevanceReason :: string

record ScoredAchievement =
  sa_achievement :: Achievement
  sa_score :: real
  sa_relevanceReason :: string

record ScoredSkill =
  ss_skill :: Skill
  ss_score :: real
  isRequired :: bool
  isPreferred :: bool

record CoverageEntry =
  tech :: string
  covered :: bool
  source :: "string option"

record TechnologyCoverage =
  cov_required :: "CoverageEntry list"
  cov_preferred :: "CoverageEntry list"
  coveragePercent :: int

subsection \<open>Job normalizer (\<^verbatim>\<open>normalizer.ts\<close>)\<close>

datatype error = UnknownJobFormat | TypeError

fun typeofCompany :: "Job \<Rightarrow> JsType" where
  "typeofCompany (Enhanced e) = TypeObject"
| "typeofCompany (Basic b) = TypeString"
| "typeofCompany (OtherCompany JsUndefined) = TypeUndefined"
| "typeofCompany (OtherCompany JsNull) = TypeObject"
| "typeofCompany (OtherCompany (JsNumber n)) = TypeNumber"
| "typeofCompany (OtherCompany (JsBoolean b)) = TypeBoolean"

definition isEnhancedJob :: "Job \<Rightarrow> bool" where
  "isEnhancedJob job = (typeofCompany job = TypeObject)"

definition isBasicJob :: "Job \<Rightarrow> bool" where
  "isBasicJob job = (typeofCompany job = TypeString)"

text \<open>\<^verbatim>\<open>/\d+%?/.test(s)\<close>: the string holds a digit.\<close>

definition hasNumber :: "string \<Rightarrow> bool" where
  "hasNumber s = list_ex isDigit s"

text \<open>A \<^verbatim>\<open>Set\<close> filled with \<^verbatim>\<open>add\<close> and read with \<^verbatim>\<open>Array.from\<close>: first occurrences, in order.\<close>

definition uniqueInOrder :: "'a list \<Rightarrow> 'a list" where
  "uniqueInOrder xs = fold (\<lambda>x acc. if x \<in> set acc then acc else acc @ [x]) xs []"

definition orEmpty :: "'a list option \<Rightarrow> 'a list" where
  "orEmpty xs = (case xs of None \<Rightarrow> [] | Some ys \<Rightarrow> ys)"

definition collectTechnologies :: "EnhancedJob \<Rightarrow> string list" where
  "collectTechnologies job =
     uniqueInOrder
       ((case enhanced_technologies job of
           None \<Rightarrow> []
         | Some t \<Rightarrow>
             concat (map orEmpty
               [tech_languages t, tech_frameworks t, tech_databases t, tech_cloud t,
                tech_devops t, tech_tools t, tech_mobile t, tech_testing t]))
        @ concat (map (\<lambda>p. orEmpty (project_technologies p))
                   (orEmpty (enhanced_projects job))))"

definition normalizeAchievements :: "Achievement list option \<Rightarrow> Achievement list" where
  "normalizeAchievements as =
     (case as of
        None \<Rightarrow> []
      | Some xs \<Rightarrow>
          map (\<lambda>a. a\<lparr>achievement_quantifiable :=
                        Some (case achievement_quantifiable a of
                                Some q \<Rightarrow> q
                              | None \<Rightarrow> hasNumber (achievement_description a))\<rparr>) xs)"

definition collectResponsibilities :: "Responsibilities option \<Rightarrow> string list" where
  "collectResponsibilities resp =
     (case resp of
        None \<Rightarrow> []
      | Some r \<Rightarrow>
          orEmpty (resp_primary r) @ orEmpty (resp_secondary r) @ orEmpty (resp_leadership r)
          @ orEmpty (resp_technical r) @ orEmpty (resp_business r))"

text \<open>
  \<^verbatim>\<open>durationMonths\<close> (\<^verbatim>\<open>calculateMonths\<close>, arithmetic on \<^verbatim>\<open>Date\<close> objects) is not part of the
  model: no function of the matcher reads it.
\<close>

definition normalizeEnhancedJob :: "EnhancedJob \<Rightarrow> NormalizedJob" where
  "normalizeEnhancedJob job =
     \<lparr> companyName = company_name (enhanced_company job),
       companyDescription = company_description (enhanced_company job),
       companyInfo = Some (enhanced_company job),
       title = role_title (enhanced_role job),
       level = role_level (enhanced_role job),
       location = (case company_location (enhanced_company job) of
                     Some l \<Rightarrow> l | None \<Rightarrow> ''Remote''),
       startDate = duration_start (enhanced_duration job),
       endDate = duration_end (enhanced_duration job),
       technologies = collectTechnologies job,
       projects = orEmpty (enhanced_projects job),
       achievements = normalizeAchievements (enhanced_achievements job),
       responsibilities = collectResponsibilities (enhanced_responsibilities job),
       relevanceWeights = enhanced_relevanceWeights job,
       job_keywords = enhanced_keywords job,
       workStyle = (case enhanced_context job of
                      None \<Rightarrow> None | Some c \<Rightarrow> context_workStyle c) \<rparr>"

text \<open>\<^verbatim>\<open>s.split(/\s+/)\<close>; the flag says that the previous character was whitespace.\<close>

fun splitWhitespace :: "bool \<Rightarrow> string \<Rightarrow> string list" where
  "splitWhitespace inSep [] = [[]]"
| "splitWhitespace inSep (c # cs) =
     (if isWhitespace c
      then (if inSep then splitWhitespace True cs else [] # splitWhitespace True cs)
      else (case splitWhitespace False cs of
              w # ws \<Rightarrow> (c # w) # ws
            | [] \<Rightarrow> [[c]]))"

definition months :: "(string \<times> string) list" where
  "months =
    [(''january'', ''01''), (''february'', ''02''), (''march'', ''03''), (''april'', ''04''),
     (''may'', ''05''), (''june'', ''06''), (''july'', ''07''), (''august'', ''08''),
     (''september'', ''09''), (''october'', ''10''), (''november'', ''11''),
     (''december'', ''12''),
     (''jan'', ''01''), (''feb'', ''02''), (''mar'', ''03''), (''apr'', ''04''),
     (''jun'', ''06''), (''jul'', ''07''), (''aug'', ''08''), (''sep'', ''09''),
     (''oct'', ''10''), (''nov'', ''11''), (''dec'', ''12'')]"

text \<open>
  \<^verbatim>\<open>months\<close> is a plain object, and \<^verbatim>\<open>months[key]\<close> also finds the properties it inherits
  from \<^verbatim>\<open>Object.prototype\<close>. The key is a word of the lower-cased date string, so of these
  only \<^verbatim>\<open>constructor\<close> and \<^verbatim>\<open>__proto__\<close> can be found; both are truthy, and the template
  literal prints the first as the text of a native function and the second as an object.
\<close>

definition inheritedMonths :: "(string \<times> string) list" where
  "inheritedMonths =
    [(''constructor'', ''function Object() { [native code] }''),
     (''__proto__'', ''[object Object]'')]"

text \<open>\<^verbatim>\<open>s.match(/\d{4}/)\<close>: the first four consecutive digits.\<close>

fun firstFourDigits :: "string \<Rightarrow> string option" where
  "firstFourDigits [] = None"
| "firstFourDigits (c # cs) =
     (if length (c # cs) \<ge> 4 \<and> list_all isDigit (take 4 (c # cs)) then Some (take 4 (c # cs))
      else firstFourDigits cs)"

text \<open>
  \<^verbatim>\<open>normalizeDate\<close>. The first test is \<^verbatim>\<open>/^\d{4}-\d{2}/\<close>, the test of the year of a
  "Month Year" string is \<^verbatim>\<open>/^\d{4}$/\<close>.
\<close>

definition normalizeDate :: "string \<Rightarrow> string" where
  "normalizeDate dateStr =
     (if dateStr = [] then []
      else if length dateStr \<ge> 7 \<and> list_all isDigit (take 4 dateStr) \<and> dateStr ! 4 = CHR ''-''
              \<and> list_all isDigit (take 2 (drop 5 dateStr))
      then take 7 dateStr
      else
        (case (case splitWhitespace False (toLowerCase dateStr) of
                 [m, year] \<Rightarrow>
                   (case map_of (months @ inheritedMonths) m of
                      Some monthNum \<Rightarrow>
                        if length year = 4 \<and> list_all isDigit year
                        then Some (year @ ''-'' @ monthNum) else None
                    | None \<Rightarrow> None)
               | _ \<Rightarrow> None) of
           Some d \<Rightarrow> d
         | None \<Rightarrow>
             (case firstFourDigits dateStr of
                Some y \<Rightarrow> y @ ''-01''
              | None \<Rightarrow> dateStr)))"

definition truthy :: "string option \<Rightarrow> bool" where
  "truthy s = (case s of None \<Rightarrow> False | Some v \<Rightarrow> v \<noteq> [])"

definition normalizeBasicJob :: "BasicJob \<Rightarrow> NormalizedJob" where
  "normalizeBasicJob job =
     (let achievements' =
            map (\<lambda>desc. \<lparr> achievement_description = desc, achievement_impact = None,
                          achievement_metrics = None, achievement_category = None,
                          achievement_quantifiable = Some (hasNumber desc) \<rparr>)
              (orEmpty (basic_achievements job));
          startDate' =
            (case basic_startDate job of
               Some d \<Rightarrow> d
             | None \<Rightarrow> (case basic_duration job of Some du \<Rightarrow> duration_start du | None \<Rightarrow> []));
          endDate' =
            (case basic_endDate job of
               Some d \<Rightarrow> Some d
             | None \<Rightarrow> (case basic_duration job of Some du \<Rightarrow> duration_end du | None \<Rightarrow> None))
      in \<lparr> companyName = basic_company job,
           companyDescription = basic_companyDescription job,
           companyInfo = None,
           title = basic_position job,
           level = None,
           location = (case basic_location job of Some l \<Rightarrow> l | None \<Rightarrow> []),
           startDate = normalizeDate startDate',
           endDate = (if truthy endDate' then map_option normalizeDate endDate' else None),
           technologies = orEmpty (basic_technologies job),
           projects = [],
           achievements = achievements',
           responsibilities = orEmpty (basic_description job),
           relevanceWeights = None,
           job_keywords = None,
           workStyle = None \<rparr>)"

text \<open>
  \<^verbatim>\<open>normalizeJob\<close>. A record whose \<^verbatim>\<open>company\<close> is \<^verbatim>\<open>null\<close> passes \<^verbatim>\<open>isEnhancedJob\<close>, and
  \<^verbatim>\<open>normalizeEnhancedJob\<close> then fails on \<^verbatim>\<open>job.company.name\<close> with a \<^verbatim>\<open>TypeError\<close>.
\<close>

definition normalizeJob :: "Job \<Rightarrow> error + NormalizedJob" where
  "normalizeJob job =
     (if isEnhancedJob job then
        (case job of
           Enhanced e \<Rightarrow> Inr (normalizeEnhancedJob e)
         | _ \<Rightarrow> Inl TypeError)
      else if isBasicJob job then
        (case job of
           Basic b \<Rightarrow> Inr (normalizeBasicJob b)
         | _ \<Rightarrow> Inl TypeError)
      else Inl UnknownJobFormat)"

fun indexOf :: "'a list \<Rightarrow> 'a \<Rightarrow> int" where
  "indexOf [] x = - 1"
| "indexOf (y # ys) x =
     (if y = x then 0 else (let i = indexOf ys x in if i = - 1 then - 1 else i + 1))"

text \<open>
  \<^verbatim>\<open>parseInt(s, 10)\<close>: leading whitespace, a sign, then decimal digits as far as they go;
  \<open>None\<close> (\<^verbatim>\<open>NaN\<close>) when there is no digit.
\<close>

definition digitsToNat :: "string \<Rightarrow> nat" where
  "digitsToNat ds = foldl (\<lambda>n c. 10 * n + nat (indexOf ''0123456789'' c)) 0 ds"

definition parseInt :: "string \<Rightarrow> int option" where
  "parseInt s =
     (let t = dropWhile isWhitespace s;
          neg = (t \<noteq> [] \<and> hd t = CHR ''-'');
          u = (if t \<noteq> [] \<and> (hd t = CHR ''-'' \<or> hd t = CHR ''+'') then tl t else t);
          ds = takeWhile isDigit u
      in if ds = [] then None
         else Some (if neg then - int (digitsToNat ds) else int (digitsToNat ds)))"

text \<open>
  \<^verbatim>\<open>getJobEndYear\<close>: \<^verbatim>\<open>!job.endDate\<close> holds for an absent and for an empty end date;
  \<^verbatim>\<open>split('-')[0]\<close> is the text before the first hyphen.
\<close>

definition getJobEndYear :: "int \<Rightarrow> NormalizedJob \<Rightarrow> int option" where
  "getJobEndYear currentYear job =
     (case endDate job of
        None \<Rightarrow> Some currentYear
      | Some d \<Rightarrow>
          if d = [] then Some currentYear
          else parseInt (takeWhile (\<lambda>c. c \<noteq> CHR ''-'') d))"

subsection \<open>Double arithmetic\<close>

text \<open>
  The sum and the product of two doubles are the exact sum and product, rounded to the
  nearest double, a tie to the one with an even significand. A double has a significand
  of 53 bits; below \<open>2 powr - 1022\<close> the spacing of the doubles stays \<open>2 powr - 1074\<close>.
  Overflow, infinities, \<^verbatim>\<open>NaN\<close> and the sign of zero are not modelled; the weighted sum of
  scores stays far from the largest double.
\<close>

definition roundHalfEven :: "real \<Rightarrow> int" where
  "roundHalfEven q =
     (let f = \<lfloor>q\<rfloor>; r = q - of_int f
      in if r < 1 / 2 then f else if 1 / 2 < r then f + 1 else if even f then f else f + 1)"

definition doubleExponent :: "real \<Rightarrow> int" where
  "doubleExponent x = max \<lfloor>log 2 \<bar>x\<bar>\<rfloor> (- 1022)"

definition roundToDouble :: "real \<Rightarrow> real" where
  "roundToDouble x =
     (if x = 0 then 0
      else of_int (roundHalfEven (x / 2 powr of_int (doubleExponent x - 52)))
           * 2 powr of_int (doubleExponent x - 52))"

definition doubleAdd :: "real \<Rightarrow> real \<Rightarrow> real" where
  "doubleAdd x y = roundToDouble (x + y)"

definition doubleMul :: "real \<Rightarrow> real \<Rightarrow> real" where
  "doubleMul x y = roundToDouble (x * y)"

subsection \<open>Scorers (\<^verbatim>\<open>scorers.ts\<close>)\<close>

definition scoreTechnologyMatch :: "NormalizedJob \<Rightarrow> JobRequirements \<Rightarrow> real" where
  "scoreTechnologyMatch job requirements =
     (let allRequired =
            requiredTechnologies requirements
            @ filter (\<lambda>k. k \<notin> set (buzzwords requirements)) (req_keywords requirements);
          matched' = matched (findMatchingTechs (technologies job) allRequired)
      in if length allRequired = 0 then 0.5
         else
           (let score = real (length matched') / real (length allRequired);
                prefMatched =
                  matched (findMatchingTechs (technologies job)
                             (preferredTechnologies requirements));
                score =
                  (if length (preferredTechnologies requirements) > 0
                   then score + (real (length prefMatched)
                                  / real (length (preferredTechnologies requirements))) * 0.2
                   else score)
            in min 1 score))"

definition orZero :: "real option \<Rightarrow> real" where
  "orZero w = (case w of None \<Rightarrow> 0 | Some v \<Rightarrow> v)"

definition scoreDomainMatch :: "NormalizedJob \<Rightarrow> JobRequirements \<Rightarrow> real" where
  "scoreDomainMatch job requirements =
     (let score = 0.5;
          industry = (case companyInfo job of None \<Rightarrow> None | Some c \<Rightarrow> company_industry c);
          score =
            (if truthy industry \<and> truthy (domain requirements)
             then (let jobIndustry = toLowerCase (the industry);
                       reqDomain = toLowerCase (the (domain requirements))
                   in if includesStr jobIndustry reqDomain \<or> includesStr reqDomain jobIndustry
                      then score + 0.3 else score)
             else score);
          score =
            (case relevanceWeights job of
               None \<Rightarrow> score
             | Some weights' \<Rightarrow>
                 (let score =
                        (if domain requirements = Some ''fintech''
                            \<or> domain requirements = Some ''crypto''
                         then score + orZero (weight_mobile weights') * 0.1 else score);
                      score =
                        (if companyType requirements = Some ''startup''
                            \<or> companyType requirements = Some ''scaleup''
                         then score + orZero (weight_startup weights') * 0.15 else score);
                      score =
                        (if companyType requirements = Some ''enterprise''
                            \<or> companyType requirements = Some ''faang''
                         then score + orZero (weight_enterprise weights') * 0.15 else score);
                      score =
                        (if leadershipRequired requirements
                         then score + orZero (weight_leadership weights') * 0.1 else score)
                  in score));
          domains = (case job_keywords job of None \<Rightarrow> None | Some k \<Rightarrow> keywords_domains k);
          score =
            (if domains \<noteq> None \<and> truthy (domain requirements)
             then (if list_ex (\<lambda>d. includesStr (toLowerCase d)
                                      (toLowerCase (the (domain requirements))))
                        (the domains)
                   then score + 0.2 else score)
             else score)
      in min 1 score)"

definition levelOrder :: "string list" where
  "levelOrder =
     [''junior'', ''mid'', ''senior'', ''staff'', ''lead'', ''principal'', ''manager'',
      ''director'']"

definition scoreSeniorityMatch :: "NormalizedJob \<Rightarrow> JobRequirements \<Rightarrow> real" where
  "scoreSeniorityMatch job requirements =
     (let jobLevel = (case level job of Some l \<Rightarrow> l | None \<Rightarrow> ''mid'');
          reqLevel = seniority requirements;
          jobIndex = indexOf levelOrder jobLevel;
          reqIndex = indexOf levelOrder reqLevel
      in if jobIndex = - 1 \<or> reqIndex = - 1 then 0.5
         else if jobIndex = reqIndex then 1.0
         else if jobIndex = reqIndex + 1 then 0.9
         else if jobIndex = reqIndex - 1 then 0.7
         else if jobIndex < reqIndex - 1
         then max 0.3 (0.7 - real_of_int (reqIndex - jobIndex - 1) * 0.15)
         else 0.8)"

text \<open>
  \<^verbatim>\<open>scoreRecency\<close>. When \<^verbatim>\<open>getJobEndYear\<close> is \<^verbatim>\<open>NaN\<close>, the comparison \<^verbatim>\<open>yearsAgo <= 2\<close> is
  false and \<^verbatim>\<open>Math.max(0.2, NaN)\<close> is \<^verbatim>\<open>NaN\<close>.
\<close>

definition scoreRecency :: "int \<Rightarrow> NormalizedJob \<Rightarrow> MatchConfig \<Rightarrow> real option" where
  "scoreRecency currentYear job config =
     (case getJobEndYear currentYear job of
        None \<Rightarrow> None
      | Some jobEndYear \<Rightarrow>
          (let yearsAgo = currentYear - jobEndYear
           in if yearsAgo \<le> 2 then Some 1.0
              else (let decay = recencyDecay config * real_of_int (yearsAgo - 2)
                    in Some (max 0.2 (1 - decay)))))"

text \<open>\<^verbatim>\<open>if (weights.mobile)\<close>: a number is truthy when it is present and not 0.\<close>

definition truthyNumber :: "real option \<Rightarrow> bool" where
  "truthyNumber w = (case w of None \<Rightarrow> False | Some v \<Rightarrow> v \<noteq> 0)"

definition mobileTechs :: "string list" where
  "mobileTechs = [''Swift'', ''Kotlin'', ''iOS'', ''Android'', ''React Native'']"

text \<open>The pair is \<^verbatim>\<open>(score, factors)\<close>.\<close>

definition addWeight :: "real option \<Rightarrow> real \<times> nat \<Rightarrow> real \<times> nat" where
  "addWeight w acc = (if truthyNumber w then (fst acc + the w, snd acc + 1) else acc)"

definition scoreRelevanceWeights :: "NormalizedJob \<Rightarrow> JobRequirements \<Rightarrow> real" where
  "scoreRelevanceWeights job requirements =
     (case relevanceWeights job of
        None \<Rightarrow> 0.5
      | Some weights' \<Rightarrow>
          (let acc = (0, 0);
               acc =
                 (if list_ex (\<lambda>t. t \<in> set mobileTechs) (requiredTechnologies requirements)
                  then addWeight (weight_mobile weights') acc else acc);
               acc =
                 (if leadershipRequired requirements \<or> seniority requirements = ''lead''
                     \<or> seniority requirements = ''manager''
                  then addWeight (weight_leadership weights') acc else acc);
               acc =
                 (if companyType requirements = Some ''startup''
                     \<or> companyType requirements = Some ''scaleup''
                  then addWeight (weight_startup weights') acc
                  else if companyType requirements = Some ''enterprise''
                          \<or> companyType requirements = Some ''faang''
                  then addWeight (weight_enterprise weights') acc
                  else acc)
           in if snd acc = 0 then 0.5 else fst acc / real (snd acc)))"

text \<open>
  The total of \<^verbatim>\<open>scoreJob\<close> is
  \<^verbatim>\<open>techScore * w.technology + domainScore * w.domain + seniorityScore * w.seniority +
  recencyScore * w.recency + relevanceScore * w.relevance\<close>, where \<^verbatim>\<open>w\<close> is
  \<^verbatim>\<open>config.weights\<close>: five products of doubles, added from the left, each operation
  rounded.
\<close>

definition weightedTotal :: "Weights \<Rightarrow> real \<Rightarrow> real \<Rightarrow> real \<Rightarrow> real \<Rightarrow> real \<Rightarrow> real" where
  "weightedTotal w techScore domainScore seniorityScore recencyScore relevanceScore =
     doubleAdd
       (doubleAdd
          (doubleAdd
             (doubleAdd (doubleMul techScore (w_technology w))
                (doubleMul domainScore (w_domain w)))
             (doubleMul seniorityScore (w_seniority w)))
          (doubleMul recencyScore (w_recency w)))
       (doubleMul relevanceScore (w_relevance w))"

text \<open>\<^verbatim>\<open>scoreJob\<close>; a recency score that is \<^verbatim>\<open>NaN\<close> makes the total \<^verbatim>\<open>NaN\<close>.\<close>

definition scoreJob :: "int \<Rightarrow> NormalizedJob \<Rightarrow> JobRequirements \<Rightarrow> MatchConfig \<Rightarrow> JobScore" where
  "scoreJob currentYear job requirements config =
     (let techScore = scoreTechnologyMatch job requirements;
          domainScore = scoreDomainMatch job requirements;
          seniorityScore = scoreSeniorityMatch job requirements;
          recencyScore = scoreRecency currentYear job config;
          relevanceScore = scoreRelevanceWeights job requirements;
          totalScore' =
            (case recencyScore of
               None \<Rightarrow> None
             | Some r \<Rightarrow>
                 Some (weightedTotal (weights config) techScore domainScore seniorityScore r
                         relevanceScore));
          allRequired = requiredTechnologies requirements @ preferredTechnologies requirements;
          result = findMatchingTechs (technologies job) allRequired;
          matchedKeywords' =
            filter (\<lambda>k. list_ex (\<lambda>t. techMatches t k) (technologies job)
                         \<or> list_ex (\<lambda>r. includesStr (toLowerCase r) (toLowerCase k))
                              (responsibilities job))
              (req_keywords requirements)
      in \<lparr> jobId = companyName job @ ''-'' @ startDate job,
           score_companyName = companyName job,
           score_title = title job,
           scores = \<lparr> technologyMatch = techScore, domainMatch = domainScore,
                      seniorityMatch = seniorityScore, recency = recencyScore,
                      relevanceWeight = relevanceScore \<rparr>,
           totalScore = totalScore',
           matchedTechnologies = matched result,
           missingTechnologies = missing result,
           matchedKeywords = matchedKeywords' \<rparr>)"

text \<open>\<^verbatim>\<open>/\d+%/.test(s)\<close>: a digit directly followed by a percent sign.\<close>

fun hasPercent :: "string \<Rightarrow> bool" where
  "hasPercent (a # b # cs) = ((isDigit a \<and> b = CHR ''%'') \<or> hasPercent (b # cs))"
| "hasPercent cs = False"

text \<open>The decimal numeral of a count, as a template literal prints it.\<close>

fun showNat :: "nat \<Rightarrow> string" where
  "showNat n =
     (if n < 10 then [''0123456789'' ! n]
      else showNat (n div 10) @ [''0123456789'' ! (n mod 10)])"

text \<open>\<^verbatim>\<open>reasons.join('; ') || fallback\<close>\<close>

definition joinReasons :: "string list \<Rightarrow> string \<Rightarrow> string" where
  "joinReasons reasons fallback =
     (if join ''; '' reasons = [] then fallback else join ''; '' reasons)"

text \<open>The pair threaded through \<^verbatim>\<open>scoreProject\<close> and \<^verbatim>\<open>scoreAchievement\<close> is \<^verbatim>\<open>(score, reasons)\<close>.\<close>

definition scoreProject :: "Project \<Rightarrow> JobRequirements \<Rightarrow> ScoredProject" where
  "scoreProject project requirements =
     (let st = (0.5, []);
          matched' =
            (case project_technologies project of
               None \<Rightarrow> []
             | Some techs \<Rightarrow>
                 matched (findMatchingTechs techs
                            (requiredTechnologies requirements
                             @ preferredTechnologies requirements)));
          st =
            (if length matched' > 0
             then (fst st + real (length matched') * 0.1,
                   snd st @ [''Uses '' @ join '', '' matched'])
             else st);
          st =
            (if truthy (project_impact project)
             then (let impact = the (project_impact project);
                       impactLower = toLowerCase impact;
                       st = (if list_ex (\<lambda>k. includesStr impactLower (toLowerCase k))
                                  (req_keywords requirements)
                             then (fst st + 0.15, snd st @ [''Relevant impact'']) else st);
                       st = (if hasPercent impact
                             then (fst st + 0.1, snd st @ [''Quantified impact'']) else st)
                   in st)
             else st);
          st =
            (case project_teamSize project of
               None \<Rightarrow> st
             | Some teamSize \<Rightarrow>
                 if leadershipRequired requirements \<and> teamSize \<noteq> 0 \<and> teamSize > 1
                 then (fst st + 0.1, snd st @ [''Led team of '' @ showNat teamSize])
                 else st)
      in \<lparr> sp_project = project,
           sp_score = min 1 (fst st),
           sp_matchedTechnologies = matched',
           sp_relevanceReason = joinReasons (snd st) ''General relevance'' \<rparr>)"

text \<open>
  \<^verbatim>\<open>/\b(led|managed|mentored|coached|hired|built team)\b/i.test(s)\<close>: one of the words
  occurs, in any case, with no word character (letter, digit, underscore) directly before
  or after it.
\<close>

definition isWordChar :: "char \<Rightarrow> bool" where
  "isWordChar c =
     (c \<in> set ''abcdefghijklmnopqrstuvwxyzABCDEFGHIJKLMNOPQRSTUVWXYZ0123456789_'')"

definition leadershipVerbs :: "string list" where
  "leadershipVerbs = [''led'', ''managed'', ''mentored'', ''coached'', ''hired'', ''built team'']"

definition wordAt :: "char option \<Rightarrow> string \<Rightarrow> string \<Rightarrow> bool" where
  "wordAt prev s w =
     ((case prev of None \<Rightarrow> True | Some p \<Rightarrow> \<not> isWordChar p)
      \<and> startsWith (toLowerCase s) w
      \<and> (case drop (length w) s of [] \<Rightarrow> True | c # cs \<Rightarrow> \<not> isWordChar c))"

fun leadershipVerbFrom :: "char option \<Rightarrow> string \<Rightarrow> bool" where
  "leadershipVerbFrom prev [] = False"
| "leadershipVerbFrom prev (c # cs) =
     (list_ex (wordAt prev (c # cs)) leadershipVerbs \<or> leadershipVerbFrom (Some c) cs)"

definition hasLeadershipVerb :: "string \<Rightarrow> bool" where
  "hasLeadershipVerb s = leadershipVerbFrom None s"

definition scoreAchievement :: "Achievement \<Rightarrow> JobRequirements \<Rightarrow> ScoredAchievement" where
  "scoreAchievement achievement requirements =
     (let st = (0.5, []);
          descLower = toLowerCase (achievement_description achievement);
          matchedKeywords' =
            filter (\<lambda>k. includesStr descLower (toLowerCase k)) (req_keywords requirements);
          st =
            (if length matchedKeywords' > 0
             then (fst st + real (length matchedKeywords') * 0.1,
                   snd st @ [''Mentions '' @ join '', '' matchedKeywords'])
             else st);
          st =
            (if achievement_quantifiable achievement = Some True
                \<or> hasNumber (achievement_description achievement)
             then (fst st + 0.2, snd st @ [''Quantified result'']) else st);
          st =
            (if truthy (achievement_category achievement)
             then (let category = the (achievement_category achievement);
                       st = (if leadershipRequired requirements \<and> category = ''team''
                             then (fst st + 0.15, snd st @ [''Team achievement'']) else st);
                       st = (if category \<in> set [''performance'', ''quality'', ''business'']
                             then (fst st + 0.1, snd st @ [category @ '' achievement''])
                             else st)
                   in st)
             else st);
          st =
            (if leadershipRequired requirements
                \<and> hasLeadershipVerb (achievement_description achievement)
             then (fst st + 0.15, snd st @ [''Leadership demonstrated'']) else st);
          st =
            (if truthy (achievement_impact achievement)
             then (fst st + 0.1, snd st @ [''Has impact statement'']) else st)
      in \<lparr> sa_achievement = achievement,
           sa_score = min 1 (fst st),
           sa_relevanceReason = joinReasons (snd st) ''General achievement'' \<rparr>)"

subsection \<open>Selector (\<^verbatim>\<open>selector.ts\<close>, and the skill functions of \<^verbatim>\<open>technology-matcher.ts\<close>)\<close>

definition getAllSkills :: "SkillsData \<Rightarrow> Skill list" where
  "getAllSkills skills = concat (map snd (categories skills))"

definition skillMatchesAny :: "Skill \<Rightarrow> string list \<Rightarrow> bool" where
  "skillMatchesAny skill techs =
     list_ex (\<lambda>t. techMatches (skill_name skill) t
                   \<or> (case skill_keywords skill of
                         None \<Rightarrow> False
                       | Some ks \<Rightarrow> list_ex (\<lambda>k. techMatches k t) ks)) techs"

record MatchingSkills =
  ms_required :: "Skill list"
  ms_preferred :: "Skill list"
  ms_other :: "Skill list"

definition findMatchingSkills ::
    "SkillsData \<Rightarrow> string list \<Rightarrow> string list \<Rightarrow> MatchingSkills" where
  "findMatchingSkills skills requiredTechs preferredTechs =
     (let allSkills = getAllSkills skills
      in \<lparr> ms_required = filter (\<lambda>skill. skillMatchesAny skill requiredTechs) allSkills,
           ms_preferred =
             filter (\<lambda>skill. \<not> skillMatchesAny skill requiredTechs
                             \<and> skillMatchesAny skill preferredTechs) allSkills,
           ms_other =
             filter (\<lambda>skill. \<not> skillMatchesAny skill requiredTechs
                             \<and> \<not> skillMatchesAny skill preferredTechs) allSkills \<rparr>)"

definition isDeprecated :: "string \<Rightarrow> SkillsData \<Rightarrow> bool" where
  "isDeprecated t skills = list_ex (\<lambda>d. techMatches d t) (deprecated skills)"

definition isFeatured :: "string \<Rightarrow> SkillsData \<Rightarrow> bool" where
  "isFeatured t skills = list_ex (\<lambda>f. techMatches f t) (featured skills)"

text \<open>
  \<^verbatim>\<open>xs.sort(compare)\<close>: the sort of an array is stable; an element goes before the first
  element it does not compare greater than.
\<close>

fun insertBy :: "('a \<Rightarrow> 'a \<Rightarrow> real) \<Rightarrow> 'a \<Rightarrow> 'a list \<Rightarrow> 'a list" where
  "insertBy compare x [] = [x]"
| "insertBy compare x (y # ys) =
     (if compare x y \<le> 0 then x # y # ys else y # insertBy compare x ys)"

definition sortBy :: "('a \<Rightarrow> 'a \<Rightarrow> real) \<Rightarrow> 'a list \<Rightarrow> 'a list" where
  "sortBy compare xs = foldr (insertBy compare) xs []"

definition selectProjects ::
    "NormalizedJob list \<Rightarrow> JobRequirements \<Rightarrow> MatchConfig \<Rightarrow> ScoredProject list" where
  "selectProjects jobs requirements config =
     (let allProjects =
            concat (map (\<lambda>job. map (\<lambda>project. scoreProject project requirements)
                                 (projects job)) jobs);
          allProjects = sortBy (\<lambda>a b. sp_score b - sp_score a) allProjects;
          count = min (max (minProjectsToShow config)
                         (length (filter (\<lambda>p. sp_score p > 0.5) allProjects)))
                    (maxProjectsToShow config)
      in take count allProjects)"

definition selectAchievements ::
    "NormalizedJob list \<Rightarrow> JobRequirements \<Rightarrow> MatchConfig \<Rightarrow> ScoredAchievement list" where
  "selectAchievements jobs requirements config =
     (let allAchievements =
            concat (map (\<lambda>job. map (\<lambda>achievement. scoreAchievement achievement requirements)
                                 (achievements job)) jobs);
          allAchievements = sortBy (\<lambda>a b. sa_score b - sa_score a) allAchievements;
          count = min (max (minAchievementsToShow config)
                         (length (filter (\<lambda>a. sa_score a > 0.5) allAchievements)))
                    (maxAchievementsToShow config)
      in take count allAchievements)"

definition levelScores :: "SkillLevel \<Rightarrow> real" where
  "levelScores l =
     (case l of expert \<Rightarrow> 0.25 | advanced \<Rightarrow> 0.15 | intermediate \<Rightarrow> 0.1 | beginner \<Rightarrow> 0.05)"

definition calculateSkillScore :: "int \<Rightarrow> Skill \<Rightarrow> SkillsData \<Rightarrow> bool \<Rightarrow> bool \<Rightarrow> real" where
  "calculateSkillScore currentYear skill skills isReq isPref =
     (let score = 0;
          score = (if isReq then score + 0.4 else if isPref then score + 0.25 else score);
          score = score + levelScores (skill_level skill);
          yearsAgo = currentYear - lastUsed skill;
          score = (if yearsAgo = 0 then score + 0.15
                   else if yearsAgo \<le> 2 then score + 0.1
                   else if yearsAgo \<le> 5 then score + 0.05
                   else score);
          score = (if isFeatured (skill_name skill) skills then score + 0.1 else score);
          score = (if wantToUse skill then score + 0.05 else score);
          score = (if yearsUsed skill \<ge> 5 then score + 0.1
                   else if yearsUsed skill \<ge> 3 then score + 0.05
                   else score)
      in min 1 score)"

definition compareSkills :: "ScoredSkill \<Rightarrow> ScoredSkill \<Rightarrow> real" where
  "compareSkills a b =
     (if isRequired a \<and> \<not> isRequired b then - 1
      else if \<not> isRequired a \<and> isRequired b then 1
      else if isPreferred a \<and> \<not> isPreferred b then - 1
      else if \<not> isPreferred a \<and> isPreferred b then 1
      else ss_score b - ss_score a)"

text \<open>The list \<^verbatim>\<open>scoredSkills\<close> of \<^verbatim>\<open>selectSkills\<close> before it is sorted.\<close>

definition scoredSkills :: "int \<Rightarrow> SkillsData \<Rightarrow> JobRequirements \<Rightarrow> ScoredSkill list" where
  "scoredSkills currentYear skills requirements =
     (let found = findMatchingSkills skills (requiredTechnologies requirements)
                    (preferredTechnologies requirements)
      in map (\<lambda>skill. \<lparr> ss_skill = skill,
                         ss_score = calculateSkillScore currentYear skill skills True False,
                         isRequired = True, isPreferred = False \<rparr>) (ms_required found)
         @ map (\<lambda>skill. \<lparr> ss_skill = skill,
                           ss_score = calculateSkillScore currentYear skill skills False True,
                           isRequired = False, isPreferred = True \<rparr>) (ms_preferred found)
         @ map (\<lambda>skill. \<lparr> ss_skill = skill,
                           ss_score = calculateSkillScore currentYear skill skills False False,
                           isRequired = False, isPreferred = False \<rparr>)
             (filter (\<lambda>skill. \<not> isDeprecated (skill_name skill) skills
                               \<and> (isFeatured (skill_name skill) skills
                                    \<or> skill_level skill = expert \<or> wantToUse skill))
                (ms_other found)))"

definition selectSkills ::
    "int \<Rightarrow> SkillsData \<Rightarrow> JobRequirements \<Rightarrow> MatchConfig \<Rightarrow> ScoredSkill list" where
  "selectSkills currentYear skills requirements config =
     (let sorted = sortBy compareSkills (scoredSkills currentYear skills requirements);
          count = min (max (minSkillsToShow config)
                         (length (filter (\<lambda>s. isRequired s \<or> isPreferred s) sorted)))
                    (maxSkillsToShow config)
      in take count sorted)"

definition coverageEntry :: "Skill list \<Rightarrow> NormalizedJob list \<Rightarrow> string \<Rightarrow> CoverageEntry" where
  "coverageEntry matchedSkills jobs t =
     (case find (\<lambda>s. techMatches (skill_name s) t) matchedSkills of
        Some skillMatch \<Rightarrow>
          \<lparr> tech = t, covered = True, source = Some (''skill: '' @ skill_name skillMatch) \<rparr>
      | None \<Rightarrow>
          (case find (\<lambda>job. list_ex (\<lambda>x. techMatches x t) (technologies job)) jobs of
             Some job \<Rightarrow>
               \<lparr> tech = t, covered = True, source = Some (''job: '' @ companyName job) \<rparr>
           | None \<Rightarrow> \<lparr> tech = t, covered = False, source = None \<rparr>))"

text \<open>\<^verbatim>\<open>Math.round\<close> rounds to the nearest integer, a half upwards.\<close>

definition mathRound :: "real \<Rightarrow> int" where
  "mathRound x = \<lfloor>x + 1 / 2\<rfloor>"

definition analyzeTechnologyCoverage ::
    "SkillsData \<Rightarrow> NormalizedJob list \<Rightarrow> JobRequirements \<Rightarrow> TechnologyCoverage" where
  "analyzeTechnologyCoverage skills jobs requirements =
     (let found = findMatchingSkills skills (requiredTechnologies requirements)
                    (preferredTechnologies requirements);
          requiredCoverage' =
            map (coverageEntry (ms_required found) jobs) (requiredTechnologies requirements);
          preferredCoverage' =
            map (coverageEntry (ms_preferred found) jobs) (preferredTechnologies requirements);
          reqCovered = length (filter covered requiredCoverage');
          prefCovered = length (filter covered preferredCoverage');
          reqTotal = (if length requiredCoverage' = 0 then 1 else length requiredCoverage');
          prefTotal = (if length preferredCoverage' = 0 then 1 else length preferredCoverage')
      in \<lparr> cov_required = requiredCoverage',
           cov_preferred = preferredCoverage',
           coveragePercent =
             mathRound ((real reqCovered / real reqTotal * 0.7
                         + real prefCovered / real prefTotal * 0.3) * 100) \<rparr>)"

section \<open>Example inputs\<close>

text \<open>
  The job and the requirements of the first scenario of the specification: a senior job
  with technologies Swift, UIKit and SwiftUI, still held, against a senior role that
  requires Swift and UIKit.
\<close>

definition exampleJob :: NormalizedJob where
  "exampleJob =
     \<lparr> companyName = ''FinTech Startup'', companyDescription = None, companyInfo = None,
       title = ''Senior iOS Engineer'', level = Some ''senior'', location = ''Remote'',
       startDate = ''2021-03'', endDate = None,
       technologies = [''Swift'', ''UIKit'', ''SwiftUI''],
       projects = [], achievements = [], responsibilities = [],
       relevanceWeights = None, job_keywords = None, workStyle = None \<rparr>"

definition exampleRequirements :: JobRequirements where
  "exampleRequirements =
     \<lparr> req_title = ''iOS Engineer'', seniority = ''senior'', department = None,
       req_companyName = None, companyType = None, domain = None, req_location = None,
       workArrangement = None,
       requiredTechnologies = [''Swift'', ''UIKit''], preferredTechnologies = [],
       yearsExperience = None, keyResponsibilities = [],
       leadershipRequired = False, req_teamSize = None, mentorshipExpected = False,
       req_keywords = [], buzzwords = [] \<rparr>"

text \<open>
  Two projects and three achievements, and a skills inventory of four skills that the
  candidate wants to use, after the sample data of the test script of the matcher.
\<close>

definition exampleProjects :: "Project list" where
  "exampleProjects =
     [\<lparr> project_name = ''Mobile Payments SDK'',
        project_description = Some ''Built cross-platform payments SDK'',
        project_role = None, project_duration = None,
        project_technologies = Some [''Swift'', ''Kotlin'', ''React Native''],
        project_impact = Some ''Reduced integration time by 60%'',
        project_teamSize = Some 3, project_challenges = None, project_solutions = None \<rparr>,
      \<lparr> project_name = ''CI/CD Pipeline'',
        project_description = Some ''Automated mobile release pipeline'',
        project_role = None, project_duration = None,
        project_technologies = Some [''GitHub Actions'', ''Fastlane''],
        project_impact = Some ''Released weekly instead of monthly'',
        project_teamSize = Some 2, project_challenges = None, project_solutions = None \<rparr>]"

definition exampleAchievements :: "Achievement list" where
  "exampleAchievements =
     map (\<lambda>d. \<lparr> achievement_description = d, achievement_impact = None,
                  achievement_metrics = None, achievement_category = None,
                  achievement_quantifiable = None \<rparr>)
       [''Reduced crash rate by 40%'', ''Led migration to SwiftUI'', ''Mentored 3 engineers'']"

definition exampleSkills :: SkillsData where
  "exampleSkills =
     \<lparr> categories =
         [(''languages'',
           [\<lparr> skill_name = ''Swift'', skill_level = expert, yearsUsed = 10, lastUsed = 2024,
               wantToUse = True, skill_keywords = None \<rparr>,
            \<lparr> skill_name = ''TypeScript'', skill_level = expert, yearsUsed = 6,
               lastUsed = 2024, wantToUse = True, skill_keywords = None \<rparr>]),
          (''mobile'',
           [\<lparr> skill_name = ''React Native'', skill_level = expert, yearsUsed = 6,
               lastUsed = 2024, wantToUse = True, skill_keywords = None \<rparr>,
            \<lparr> skill_name = ''UIKit'', skill_level = expert, yearsUsed = 10, lastUsed = 2024,
               wantToUse = True, skill_keywords = None \<rparr>]),
          (''frameworks'', [])],
       featured = [], deprecated = [] \<rparr>"

text \<open>
  A configuration whose five weights sum to 1 and are not all non-negative.
\<close>

definition negativeWeightConfig :: MatchConfig where
  "negativeWeightConfig =
     DEFAULT_MATCH_CONFIG\<lparr>weights :=
       \<lparr> w_technology = - 1, w_domain = 0, w_seniority = 2, w_recency = 0,
         w_relevance = 0 \<rparr>\<rparr>"

text \<open>
  A configuration whose weights are the doubles nearest to 0.1, 0.2, 0.3, 0.3 and 0.1; as
  rational numbers these five doubles sum to 1.
\<close>

definition roundedWeightConfig :: MatchConfig where
  "roundedWeightConfig =
     DEFAULT_MATCH_CONFIG\<lparr>weights :=
       \<lparr> w_technology = 3602879701896397 / 2 ^ 55,
         w_domain = 3602879701896397 / 2 ^ 54,
         w_seniority = 5404319552844595 / 2 ^ 54,
         w_recency = 5404319552844595 / 2 ^ 54,
         w_relevance = 3602879701896397 / 2 ^ 55 \<rparr>\<rparr>"

text \<open>
  A job and requirements for which each of the five sub-scores is 1: the one required
  technology is a technology of the job, industry and domain keyword are the domain of
  the requirements, the levels agree, the job is still held, and its leadership weight,
  the only applicable one that is present, is 1.
\<close>

definition perfectJob :: NormalizedJob where
  "perfectJob =
     exampleJob
       \<lparr> companyInfo :=
           Some \<lparr> company_name = ''FinTech Startup'', company_industry = Some ''fintech'',
                  company_size = None, company_stage = None, company_description = None,
                  company_website = None, company_location = None \<rparr>,
         technologies := [''Swift''],
         relevanceWeights :=
           Some \<lparr> weight_mobile = None, weight_web = None, weight_backend = None,
                  weight_frontend = None, weight_fullstack = None,
                  weight_leadership = Some 1, weight_startup = None,
                  weight_enterprise = None \<rparr>,
         job_keywords :=
           Some \<lparr> keywords_jobTitles = None, keywords_domains = Some [''fintech''],
                  keywords_buzzwords = None, keywords_certifications = None \<rparr> \<rparr>"

definition perfectRequirements :: JobRequirements where
  "perfectRequirements =
     exampleRequirements
       \<lparr> domain := Some ''fintech'', requiredTechnologies := [''Swift''],
         leadershipRequired := True \<rparr>"

text \<open>
  A basic job that is still held, its end date written \<open>''Present''\<close>, and an enhanced job
  whose end date is written as a month and a year.
\<close>

definition presentBasicJob :: BasicJob where
  "presentBasicJob =
     \<lparr> basic_company = ''Acme'', basic_companyDescription = None,
       basic_position = ''Engineer'', basic_location = Some ''Remote'',
       basic_startDate = Some ''Jan 2022'', basic_endDate = Some ''Present'',
       basic_duration = None, basic_technologies = None, basic_clients = None,
       basic_achievements = None, basic_description = None \<rparr>"

definition decemberEnhancedJob :: EnhancedJob where
  "decemberEnhancedJob =
     \<lparr> enhanced_company =
         \<lparr> company_name = ''Acme'', company_industry = None, company_size = None,
           company_stage = None, company_description = None, company_website = None,
           company_location = None \<rparr>,
       enhanced_role =
         \<lparr> role_title = ''Engineer'', role_level = Some ''senior'', role_type = None,
           role_department = None, role_reportingTo = None, role_teamSize = None,
           role_directReports = None \<rparr>,
       enhanced_duration =
         \<lparr> duration_start = ''2022-01'', duration_end = Some ''Dec 2025'',
           duration_totalMonths = None \<rparr>,
       enhanced_responsibilities = None, enhanced_projects = None,
       enhanced_technologies = None, enhanced_achievements = None, enhanced_skills = None,
       enhanced_context = None, enhanced_keywords = None,
       enhanced_relevanceWeights = None \<rparr>"

text \<open>
  An inventory of two skills, of which only the first is wanted, of expert level or
  featured.
\<close>

definition twoSkillInventory :: SkillsData where
  "twoSkillInventory =
     \<lparr> categories =
         [(''languages'',
           [\<lparr> skill_name = ''Swift'', skill_level = expert, yearsUsed = 10, lastUsed = 2024,
               wantToUse = True, skill_keywords = None \<rparr>,
            \<lparr> skill_name = ''Perl'', skill_level = intermediate, yearsUsed = 2,
               lastUsed = 2015, wantToUse = False, skill_keywords = None \<rparr>])],
       featured = [], deprecated = [] \<rparr>"

text \<open>Relevance weights of a job whose mobile weight is 0.\<close>

definition exampleWeights :: RelevanceWeights where
  "exampleWeights =
     \<lparr> weight_mobile = Some 0, weight_web = None, weight_backend = None,
       weight_frontend = None, weight_fullstack = None, weight_leadership = Some 0.6,
       weight_startup = Some 0.8, weight_enterprise = None \<rparr>"

section \<open>Auxiliary definitions of the proofs\<close>

text \<open>
  The strings an entry of the alias table is compared with, and the check that the
  canonical name of every entry, lower-cased and trimmed, is a string of its own entry and
  of no earlier one (\<open>seen\<close> collects the strings of the entries passed).
\<close>

definition lowerKeys :: "string \<times> string list \<Rightarrow> string list" where
  "lowerKeys e = toLowerCase (fst e) # snd e"

fun selfFirst :: "string list \<Rightarrow> (string \<times> string list) list \<Rightarrow> bool" where
  "selfFirst seen [] = True"
| "selfFirst seen (e # es) =
     (trim (toLowerCase (fst e)) \<notin> set seen \<and> trim (toLowerCase (fst e)) \<in> set (lowerKeys e)
      \<and> selfFirst (seen @ lowerKeys e) es)"

definition aliasHit :: "string \<Rightarrow> string \<times> string list \<Rightarrow> bool" where
  "aliasHit lower e = (lower \<in> set (lowerKeys e))"

text \<open>
  The wording of C10: the relevance weights that apply to the requirements (the mobile
  weight when a required technology is a mobile technology, the leadership weight for a
  leadership, lead or manager role, the startup weight for a startup or scaleup, else the
  enterprise weight for an enterprise or faang company), the values among them that are
  present and not 0, and a weight record whose weights of value 0 are made absent.
\<close>

definition applicableWeights :: "RelevanceWeights \<Rightarrow> JobRequirements \<Rightarrow> real option list" where
  "applicableWeights w requirements =
     (if list_ex (\<lambda>t. t \<in> set mobileTechs) (requiredTechnologies requirements)
      then [weight_mobile w] else [])
     @ (if leadershipRequired requirements \<or> seniority requirements = ''lead''
           \<or> seniority requirements = ''manager''
        then [weight_leadership w] else [])
     @ (if companyType requirements = Some ''startup''
           \<or> companyType requirements = Some ''scaleup''
        then [weight_startup w]
        else if companyType requirements = Some ''enterprise''
                \<or> companyType requirements = Some ''faang''
        then [weight_enterprise w]
        else [])"

definition nonZeroWeights :: "real option list \<Rightarrow> real list" where
  "nonZeroWeights ws =
     filter (\<lambda>v. v \<noteq> 0) (concat (map (\<lambda>w. case w of None \<Rightarrow> [] | Some v \<Rightarrow> [v]) ws))"

definition zeroAsAbsent :: "real option \<Rightarrow> real option" where
  "zeroAsAbsent w = (if w = Some 0 then None else w)"

definition zeroWeightsAsAbsent :: "RelevanceWeights \<Rightarrow> RelevanceWeights" where
  "zeroWeightsAsAbsent w =
     \<lparr> weight_mobile = zeroAsAbsent (weight_mobile w),
       weight_web = zeroAsAbsent (weight_web w),
       weight_backend = zeroAsAbsent (weight_backend w),
       weight_frontend = zeroAsAbsent (weight_frontend w),
       weight_fullstack = zeroAsAbsent (weight_fullstack w),
       weight_leadership = zeroAsAbsent (weight_leadership w),
       weight_startup = zeroAsAbsent (weight_startup w),
       weight_enterprise = zeroAsAbsent (weight_enterprise w) \<rparr>"

text \<open>
  The wording of C3 for skills: a skill of the inventory is a candidate when it matches a
  required or a preferred technology, or is not deprecated and is featured, of expert
  level or wanted; required entries come before preferred ones, these before the others,
  and within a group the scores descend.
\<close>

definition isCandidateSkill :: "SkillsData \<Rightarrow> JobRequirements \<Rightarrow> Skill \<Rightarrow> bool" where
  "isCandidateSkill skills requirements skill =
     (skillMatchesAny skill (requiredTechnologies requirements)
      \<or> skillMatchesAny skill (preferredTechnologies requirements)
      \<or> (\<not> isDeprecated (skill_name skill) skills
          \<and> (isFeatured (skill_name skill) skills \<or> skill_level skill = expert
               \<or> wantToUse skill)))"

definition skillRank :: "ScoredSkill \<Rightarrow> nat" where
  "skillRank s = (if isRequired s then 0 else if isPreferred s then 1 else 2)"

definition skillOrder :: "ScoredSkill \<Rightarrow> ScoredSkill \<Rightarrow> bool" where
  "skillOrder a b =
     (skillRank a < skillRank b \<or> (skillRank a = skillRank b \<and> ss_score b \<le> ss_score a))"

text \<open>
  The wording of C2: a score lies in the interval from 0 to 1; every relevance weight that
  a job supplies lies in it.
\<close>

definition inUnit :: "real \<Rightarrow> bool" where
  "inUnit x = (0 \<le> x \<and> x \<le> 1)"

definition validWeight :: "real option \<Rightarrow> bool" where
  "validWeight w = (case w of None \<Rightarrow> True | Some v \<Rightarrow> inUnit v)"

definition validRelevanceWeights :: "NormalizedJob \<Rightarrow> bool" where
  "validRelevanceWeights job =
     (case relevanceWeights job of
        None \<Rightarrow> True
      | Some w \<Rightarrow>
          list_all validWeight
            [weight_mobile w, weight_web w, weight_backend w, weight_frontend w,
             weight_fullstack w, weight_leadership w, weight_startup w, weight_enterprise w])"

section \<open>Evaluation lemmas\<close>

lemma toLowerChar_ascii:
  "toLowerChar (CHR ''A'') = CHR ''a''" "toLowerChar (CHR ''B'') = CHR ''b''"
  "toLowerChar (CHR ''C'') = CHR ''c''" "toLowerChar (CHR ''D'') = CHR ''d''"
  "toLowerChar (CHR ''E'') = CHR ''e''" "toLowerChar (CHR ''F'') = CHR ''f''"
  "toLowerChar (CHR ''G'') = CHR ''g''" "toLowerChar (CHR ''H'') = CHR ''h''"
  "toLowerChar (CHR ''I'') = CHR ''i''" "toLowerChar (CHR ''J'') = CHR ''j''"
  "toLowerChar (CHR ''K'') = CHR ''k''" "toLowerChar (CHR ''L'') = CHR ''l''"
  "toLowerChar (CHR ''M'') = CHR ''m''" "toLowerChar (CHR ''N'') = CHR ''n''"
  "toLowerChar (CHR ''O'') = CHR ''o''" "toLowerChar (CHR ''P'') = CHR ''p''"
  "toLowerChar (CHR ''Q'') = CHR ''q''" "toLowerChar (CHR ''R'') = CHR ''r''"
  "toLowerChar (CHR ''S'') = CHR ''s''" "toLowerChar (CHR ''T'') = CHR ''t''"
  "toLowerChar (CHR ''U'') = CHR ''u''" "toLowerChar (CHR ''V'') = CHR ''v''"
  "toLowerChar (CHR ''W'') = CHR ''w''" "toLowerChar (CHR ''X'') = CHR ''x''"
  "toLowerChar (CHR ''Y'') = CHR ''y''" "toLowerChar (CHR ''Z'') = CHR ''z''"
  "toLowerChar (CHR ''a'') = CHR ''a''" "toLowerChar (CHR ''b'') = CHR ''b''"
  "toLowerChar (CHR ''c'') = CHR ''c''" "toLowerChar (CHR ''d'') = CHR ''d''"
  "toLowerChar (CHR ''e'') = CHR ''e''" "toLowerChar (CHR ''f'') = CHR ''f''"
  "toLowerChar (CHR ''g'') = CHR ''g''" "toLowerChar (CHR ''h'') = CHR ''h''"
  "toLowerChar (CHR ''i'') = CHR ''i''" "toLowerChar (CHR ''j'') = CHR ''j''"
  "toLowerChar (CHR ''k'') = CHR ''k''" "toLowerChar (CHR ''l'') = CHR ''l''"
  "toLowerChar (CHR ''m'') = CHR ''m''" "toLowerChar (CHR ''n'') = CHR ''n''"
  "toLowerChar (CHR ''o'') = CHR ''o''" "toLowerChar (CHR ''p'') = CHR ''p''"
  "toLowerChar (CHR ''q'') = CHR ''q''" "toLowerChar (CHR ''r'') = CHR ''r''"
  "toLowerChar (CHR ''s'') = CHR ''s''" "toLowerChar (CHR ''t'') = CHR ''t''"
  "toLowerChar (CHR ''u'') = CHR ''u''" "toLowerChar (CHR ''v'') = CHR ''v''"
  "toLowerChar (CHR ''w'') = CHR ''w''" "toLowerChar (CHR ''x'') = CHR ''x''"
  "toLowerChar (CHR ''y'') = CHR ''y''" "toLowerChar (CHR ''z'') = CHR ''z''"
  "toLowerChar (CHR ''0'') = CHR ''0''" "toLowerChar (CHR ''1'') = CHR ''1''"
  "toLowerChar (CHR ''2'') = CHR ''2''" "toLowerChar (CHR ''3'') = CHR ''3''"
  "toLowerChar (CHR ''4'') = CHR ''4''" "toLowerChar (CHR ''5'') = CHR ''5''"
  "toLowerChar (CHR ''6'') = CHR ''6''" "toLowerChar (CHR ''7'') = CHR ''7''"
  "toLowerChar (CHR ''8'') = CHR ''8''" "toLowerChar (CHR ''9'') = CHR ''9''"
  "toLowerChar (CHR '' '') = CHR '' ''" "toLowerChar (CHR ''.'') = CHR ''.''"
  "toLowerChar (CHR ''-'') = CHR ''-''" "toLowerChar (CHR ''_'') = CHR ''_''"
  by (simp_all add: toLowerChar_def)

lemma selfFirst_table: "selfFirst [] TECH_ALIASES"
  by (simp add: TECH_ALIASES_def lowerKeys_def toLowerCase_def trim_def toLowerChar_ascii
      isWhitespace_def)

section \<open>Technology names\<close>

lemma find_skip: "\<forall>x\<in>set xs. \<not> P x \<Longrightarrow> find P (xs @ ys) = find P ys"
  by (induction xs) auto

lemma selfFirst_find:
  "selfFirst seen es \<Longrightarrow> \<forall>e'\<in>set pre. set (lowerKeys e') \<subseteq> set seen \<Longrightarrow> e \<in> set es
   \<Longrightarrow> find (aliasHit (trim (toLowerCase (fst e)))) (pre @ es) = Some e"
proof (induction es arbitrary: seen pre)
  case Nil
  then show ?case by simp
next
  case (Cons e0 es)
  let ?l = "\<lambda>x. trim (toLowerCase (fst x))"
  from Cons.prems(1) have new: "?l e0 \<notin> set seen" and self: "?l e0 \<in> set (lowerKeys e0)"
    and rest: "selfFirst (seen @ lowerKeys e0) es"
    by simp_all
  show ?case
  proof (cases "e = e0")
    case True
    have "\<forall>x\<in>set pre. \<not> aliasHit (?l e) x"
      using Cons.prems(2) new True by (auto simp: aliasHit_def)
    then have "find (aliasHit (?l e)) (pre @ e0 # es) = find (aliasHit (?l e)) (e0 # es)"
      by (rule find_skip)
    also have "\<dots> = Some e0"
      using self True by (simp add: aliasHit_def)
    finally show ?thesis using True by simp
  next
    case False
    with Cons.prems(3) have mem: "e \<in> set es" by simp
    have "\<forall>e'\<in>set (pre @ [e0]). set (lowerKeys e') \<subseteq> set (seen @ lowerKeys e0)"
      using Cons.prems(2) by auto
    from Cons.IH [OF rest this mem] show ?thesis by simp
  qed
qed

lemma normalizeTechName_canonical:
  assumes "e \<in> set TECH_ALIASES"
  shows "normalizeTechName (fst e) = fst e"
proof -
  have hit: "(\<lambda>(canonical, aliases). lower \<in> set aliases \<or> toLowerCase canonical = lower)
             = aliasHit lower" for lower
    by (auto simp: fun_eq_iff aliasHit_def lowerKeys_def)
  have "find (aliasHit (trim (toLowerCase (fst e)))) ([] @ TECH_ALIASES) = Some e"
    using selfFirst_table _ assms by (rule selfFirst_find) simp
  then show ?thesis
    by (simp add: normalizeTechName_def hit split: prod.split)
qed

text \<open>
  C9. For every technology string \<open>x\<close> that is a canonical name of the alias table,
  \<open>normalizeTechName\<close> is idempotent:
  \<open>normalizeTechName (normalizeTechName x) = normalizeTechName x\<close>.
  (A canonical name is returned unchanged: the first entry of the table that its lower-case
  form hits is its own.)
\<close>

theorem normalizeTechName_idempotent_on_canonical:
  "\<forall>x\<in>set (map fst TECH_ALIASES).
     normalizeTechName (normalizeTechName x) = normalizeTechName x"
  using normalizeTechName_canonical by auto

theorem normalizeTechName_idempotent_on_canonical_witness:
  "''PostgreSQL'' \<in> set (map fst TECH_ALIASES)
   \<and> normalizeTechName (normalizeTechName ''PostgreSQL'') = normalizeTechName ''PostgreSQL''"
proof -
  have mem: "''PostgreSQL'' \<in> set (map fst TECH_ALIASES)"
    by (simp add: TECH_ALIASES_def)
  from normalizeTechName_idempotent_on_canonical mem show ?thesis
    by blast
qed

section \<open>Seniority\<close>

lemma indexOf_absent: "x \<notin> set xs \<Longrightarrow> indexOf xs x = - 1"
  by (induction xs) (auto simp: Let_def)

lemma indexOf_nth: "distinct xs \<Longrightarrow> i < length xs \<Longrightarrow> indexOf xs (xs ! i) = int i"
proof (induction xs arbitrary: i)
  case Nil
  then show ?case by simp
next
  case (Cons y ys)
  show ?case
  proof (cases i)
    case 0
    then show ?thesis by simp
  next
    case (Suc j)
    with Cons.prems have "j < length ys" and "ys ! j \<noteq> y" and "distinct ys"
      by auto
    with Cons.IH [of j] Suc show ?thesis
      by (simp add: Let_def)
  qed
qed

lemma levelOrder_distinct: "distinct levelOrder" and levelOrder_length: "length levelOrder = 8"
  by (simp_all add: levelOrder_def)

lemma scoreSeniorityMatch_index:
  assumes "level job = Some (levelOrder ! i)" and "seniority requirements = levelOrder ! r"
    and "i < 8" and "r < 8"
  shows "scoreSeniorityMatch job requirements =
           (if int i = int r then 1.0
            else if int i = int r + 1 then 0.9
            else if int i = int r - 1 then 0.7
            else if int i < int r - 1
            then max 0.3 (0.7 - real_of_int (int r - int i - 1) * 0.15)
            else 0.8)"
proof -
  have ji: "indexOf levelOrder (levelOrder ! i) = int i"
    and ri: "indexOf levelOrder (levelOrder ! r) = int r"
    using assms(3,4) by (simp_all add: indexOf_nth levelOrder_distinct levelOrder_length)
  have "int i \<noteq> - 1" and "int r \<noteq> - 1"
    by simp_all
  then show ?thesis
    unfolding scoreSeniorityMatch_def Let_def assms(1,2) option.case ji ri
    by (simp only: if_False simp_thms)
qed

text \<open>
  C5. \<open>scoreSeniorityMatch\<close> places the level of the job and the seniority of the
  requirements on the scale junior, mid, senior, staff, lead, principal, manager, director
  (positions \<open>i\<close> and \<open>r\<close> of \<open>levelOrder\<close>) and returns 1.0 on an exact match, 0.9 when
  the job is exactly one level above the requirement, 0.7 when it is exactly one level
  below, \<open>max 0.3 (0.7 - 0.15 * (gap - 1))\<close> with \<open>gap = r - i\<close> when it is more than one level
  below, and 0.8 when it is more than one level above; a junior job (position 0) against a
  senior requirement (position 2) scores 0.55.
\<close>

theorem scoreSeniorityMatch_scale:
  assumes "level job = Some (levelOrder ! i)" and "seniority requirements = levelOrder ! r"
    and "i < 8" and "r < 8"
  shows "(i = r \<longrightarrow> scoreSeniorityMatch job requirements = 1.0)
       \<and> (i = r + 1 \<longrightarrow> scoreSeniorityMatch job requirements = 0.9)
       \<and> (i + 1 = r \<longrightarrow> scoreSeniorityMatch job requirements = 0.7)
       \<and> (i + 1 < r \<longrightarrow>
            scoreSeniorityMatch job requirements = max 0.3 (0.7 - 0.15 * (real (r - i) - 1)))
       \<and> (r + 1 < i \<longrightarrow> scoreSeniorityMatch job requirements = 0.8)
       \<and> (i = 0 \<and> r = 2 \<longrightarrow> scoreSeniorityMatch job requirements = 0.55)"
proof -
  note eq = scoreSeniorityMatch_index [OF assms]
  have c1: "i = r \<Longrightarrow> scoreSeniorityMatch job requirements = 1.0"
    by (simp add: eq)
  have c2: "i = r + 1 \<Longrightarrow> scoreSeniorityMatch job requirements = 0.9"
    by (simp add: eq)
  have c3: "i + 1 = r \<Longrightarrow> scoreSeniorityMatch job requirements = 0.7"
    unfolding eq by (cases "int i = int r - 1") simp_all
  have c4: "scoreSeniorityMatch job requirements = max 0.3 (0.7 - 0.15 * (real (r - i) - 1))"
    if "i + 1 < r"
  proof -
    from that have "real_of_int (int r - int i - 1) = real (r - i) - 1"
      by (simp add: of_nat_diff)
    moreover from that have "int i \<noteq> int r" "int i \<noteq> int r + 1" "int i \<noteq> int r - 1"
      "int i < int r - 1"
      by simp_all
    ultimately show ?thesis
      unfolding eq by (simp only: if_False if_True mult.commute)
  qed
  have c5: "scoreSeniorityMatch job requirements = 0.8" if "r + 1 < i"
  proof -
    from that have "int i \<noteq> int r" "int i \<noteq> int r + 1" "int i \<noteq> int r - 1"
      "\<not> int i < int r - 1"
      by simp_all
    then show ?thesis
      unfolding eq by (simp only: if_False)
  qed
  have c6: "scoreSeniorityMatch job requirements = 0.55" if "i = 0 \<and> r = 2"
    using c4 that by simp
  from c1 c2 c3 c4 c5 c6 show ?thesis
    by blast
qed

theorem scoreSeniorityMatch_scale_witness:
  "level (exampleJob\<lparr>level := Some ''junior''\<rparr>) = Some (levelOrder ! 0)
   \<and> seniority exampleRequirements = levelOrder ! 2
   \<and> scoreSeniorityMatch (exampleJob\<lparr>level := Some ''junior''\<rparr>) exampleRequirements = 0.55"
proof -
  have l: "level (exampleJob\<lparr>level := Some ''junior''\<rparr>) = Some (levelOrder ! 0)"
    by (simp add: levelOrder_def)
  have s: "seniority exampleRequirements = levelOrder ! 2"
    by (simp add: levelOrder_def exampleRequirements_def)
  from scoreSeniorityMatch_scale [OF l s] l s show ?thesis
    by simp
qed

text \<open>
  C4, as stated, fails: a job with no level is not scored 0.5. The level defaults to
  \<open>''mid''\<close>, and against a requirement of seniority mid the score is 1.0.
\<close>

theorem scoreSeniorityMatch_absent_level_counterexample:
  "level (exampleJob\<lparr>level := None\<rparr>) = None
   \<and> scoreSeniorityMatch (exampleJob\<lparr>level := None\<rparr>)
         (exampleRequirements\<lparr>seniority := ''mid''\<rparr>) = 1.0
   \<and> scoreSeniorityMatch (exampleJob\<lparr>level := None\<rparr>)
         (exampleRequirements\<lparr>seniority := ''mid''\<rparr>) \<noteq> 0.5"
  by (simp add: scoreSeniorityMatch_def levelOrder_def Let_def)

text \<open>
  C4, amended. For every normalized job whose level is present and is not one of the eight
  values of the scale, \<open>scoreSeniorityMatch\<close> returns the neutral score 0.5, for every
  seniority of the requirements. A job with no level is scored as a job of level mid.
\<close>

theorem scoreSeniorityMatch_unknown_level:
  "(level job = Some l \<and> l \<notin> set levelOrder \<longrightarrow> scoreSeniorityMatch job requirements = 0.5)
   \<and> (level job = None \<longrightarrow>
        scoreSeniorityMatch job requirements
          = scoreSeniorityMatch (job\<lparr>level := Some ''mid''\<rparr>) requirements)"
proof -
  have "scoreSeniorityMatch job requirements = 0.5" if "level job = Some l" "l \<notin> set levelOrder"
    using that indexOf_absent [of l levelOrder]
    by (simp add: scoreSeniorityMatch_def Let_def)
  moreover have "scoreSeniorityMatch job requirements
          = scoreSeniorityMatch (job\<lparr>level := Some ''mid''\<rparr>) requirements"
    if "level job = None"
    using that by (simp add: scoreSeniorityMatch_def)
  ultimately show ?thesis
    by blast
qed

theorem scoreSeniorityMatch_unknown_level_witness:
  "level (exampleJob\<lparr>level := Some ''intern''\<rparr>) = Some ''intern''
   \<and> ''intern'' \<notin> set levelOrder
   \<and> scoreSeniorityMatch (exampleJob\<lparr>level := Some ''intern''\<rparr>) exampleRequirements = 0.5"
proof -
  have l: "level (exampleJob\<lparr>level := Some ''intern''\<rparr>) = Some ''intern''"
    by simp
  have n: "''intern'' \<notin> set levelOrder"
    by (simp add: levelOrder_def)
  from scoreSeniorityMatch_unknown_level
         [of "exampleJob\<lparr>level := Some ''intern''\<rparr>" "''intern''" exampleRequirements] l n
  show ?thesis
    by blast
qed

section \<open>Recency\<close>

text \<open>
  When the end year of the job is the number \<open>y\<close>, \<open>scoreRecency\<close> returns 1.0 if \<open>y\<close> is
  at most 2 years before the current year and
  \<open>max 0.2 (1 - recencyDecay * (yearsAgo - 2))\<close> otherwise; the end year of a job with no
  end date is the current year, so that job scores 1.0; the default decay is 0.1, and with
  it a job that ended 5 years ago scores 0.7.
\<close>

lemma scoreRecency_formula:
  "(getJobEndYear currentYear job = Some y \<longrightarrow>
      scoreRecency currentYear job config
        = Some (if currentYear - y \<le> 2 then 1.0
                else max 0.2 (1 - recencyDecay config * real_of_int (currentYear - y - 2))))
   \<and> (endDate job = None \<longrightarrow>
        getJobEndYear currentYear job = Some currentYear
        \<and> scoreRecency currentYear job config = Some 1.0)
   \<and> recencyDecay DEFAULT_MATCH_CONFIG = 0.1
   \<and> (getJobEndYear currentYear job = Some (currentYear - 5) \<longrightarrow>
        scoreRecency currentYear job DEFAULT_MATCH_CONFIG = Some 0.7)"
  by (simp add: scoreRecency_def getJobEndYear_def Let_def DEFAULT_MATCH_CONFIG_def)

lemma scoreRecency_five_years_ago:
  "getJobEndYear 2026 (exampleJob\<lparr>endDate := Some ''2021-06''\<rparr>) = Some (2026 - 5)
   \<and> scoreRecency 2026 (exampleJob\<lparr>endDate := Some ''2021-06''\<rparr>) DEFAULT_MATCH_CONFIG
       = Some 0.7"
proof -
  have y: "getJobEndYear 2026 (exampleJob\<lparr>endDate := Some ''2021-06''\<rparr>) = Some (2026 - 5)"
    by (simp add: getJobEndYear_def parseInt_def digitsToNat_def isWhitespace_def isDigit_def
        Let_def)
  from scoreRecency_formula
         [of 2026 "exampleJob\<lparr>endDate := Some ''2021-06''\<rparr>" "2026 - 5" DEFAULT_MATCH_CONFIG] y
  show ?thesis
    by blast
qed

text \<open>
  C8. The claim gives every job a recency score: 1.0 when the job is ongoing or ended at
  most 2 years before the current year, the decayed value otherwise. \<open>scoreRecency\<close>
  gives no score, \<^verbatim>\<open>NaN\<close>, to a job whose end date does not start with a year. The basic
  job \<open>presentBasicJob\<close> is ongoing, its end date is written \<^verbatim>\<open>Present\<close>;
  \<open>normalizeJob\<close> keeps that end date, \<^verbatim>\<open>parseInt\<close> finds no year in it, and the score is
  \<^verbatim>\<open>NaN\<close> where the claim says 1.0. The enhanced job \<open>decemberEnhancedJob\<close> ended in
  December 2025, one year before the current year 2026; \<open>normalizeJob\<close> copies the end
  date of an enhanced job as it is, and the score is \<^verbatim>\<open>NaN\<close> where the claim says 1.0.
  \<open>normalizeDate\<close> of the same module reads that end date as \<^verbatim>\<open>2025-12\<close>, and with it the
  score is 1.0.
\<close>

theorem scoreRecency_end_date_without_year:
  "normalizeJob (Basic presentBasicJob) = Inr (normalizeBasicJob presentBasicJob)
   \<and> endDate (normalizeBasicJob presentBasicJob) = Some ''Present''
   \<and> getJobEndYear 2026 (normalizeBasicJob presentBasicJob) = None
   \<and> scoreRecency 2026 (normalizeBasicJob presentBasicJob) DEFAULT_MATCH_CONFIG = None
   \<and> normalizeJob (Enhanced decemberEnhancedJob)
       = Inr (normalizeEnhancedJob decemberEnhancedJob)
   \<and> endDate (normalizeEnhancedJob decemberEnhancedJob) = Some ''Dec 2025''
   \<and> getJobEndYear 2026 (normalizeEnhancedJob decemberEnhancedJob) = None
   \<and> scoreRecency 2026 (normalizeEnhancedJob decemberEnhancedJob) DEFAULT_MATCH_CONFIG = None
   \<and> normalizeDate ''Dec 2025'' = ''2025-12''
   \<and> scoreRecency 2026
         ((normalizeEnhancedJob decemberEnhancedJob)\<lparr>endDate := Some ''2025-12''\<rparr>)
         DEFAULT_MATCH_CONFIG = Some 1"
proof -
  have n: "normalizeDate ''Present'' = ''Present''"
    by (simp add: normalizeDate_def toLowerCase_def toLowerChar_ascii isWhitespace_def
        isDigit_def)
  have d: "normalizeDate ''Dec 2025'' = ''2025-12''"
    by (simp add: normalizeDate_def toLowerCase_def toLowerChar_ascii isWhitespace_def
        isDigit_def months_def inheritedMonths_def)
  have b: "endDate (normalizeBasicJob presentBasicJob) = Some ''Present''"
    by (simp add: normalizeBasicJob_def presentBasicJob_def truthy_def n Let_def)
  have e: "endDate (normalizeEnhancedJob decemberEnhancedJob) = Some ''Dec 2025''"
    by (simp add: normalizeEnhancedJob_def decemberEnhancedJob_def)
  have p: "parseInt ''Present'' = None" "parseInt ''Dec 2025'' = None"
    "parseInt ''2025'' = Some 2025"
    by (simp_all add: parseInt_def digitsToNat_def isWhitespace_def isDigit_def Let_def)
  have yb: "getJobEndYear 2026 (normalizeBasicJob presentBasicJob) = None"
    by (simp add: getJobEndYear_def b p)
  have ye: "getJobEndYear 2026 (normalizeEnhancedJob decemberEnhancedJob) = None"
    by (simp add: getJobEndYear_def e p)
  have yd: "getJobEndYear 2026
              ((normalizeEnhancedJob decemberEnhancedJob)\<lparr>endDate := Some ''2025-12''\<rparr>)
              = Some 2025"
    by (simp add: getJobEndYear_def p)
  show ?thesis
    by (simp add: normalizeJob_def isEnhancedJob_def isBasicJob_def b e d yb ye yd
        scoreRecency_def)
qed

section \<open>Relevance weights\<close>

lemma nonZeroWeights_append:
  "nonZeroWeights (xs @ ys) = nonZeroWeights xs @ nonZeroWeights ys"
  by (simp add: nonZeroWeights_def)

lemma nonZeroWeights_Nil: "nonZeroWeights [] = []"
  by (simp add: nonZeroWeights_def)

lemma addWeight_nonZero:
  "addWeight w acc
     = (fst acc + sum_list (nonZeroWeights [w]), snd acc + length (nonZeroWeights [w]))"
  by (cases w) (auto simp: addWeight_def truthyNumber_def nonZeroWeights_def)

lemma scoreRelevanceWeights_average:
  assumes "relevanceWeights job = Some w"
  shows "scoreRelevanceWeights job requirements =
           (if nonZeroWeights (applicableWeights w requirements) = [] then 0.5
            else sum_list (nonZeroWeights (applicableWeights w requirements))
                 / real (length (nonZeroWeights (applicableWeights w requirements))))"
proof -
  define a where "a = (if list_ex (\<lambda>t. t \<in> set mobileTechs) (requiredTechnologies requirements)
      then [weight_mobile w] else [])"
  define b where "b = (if leadershipRequired requirements \<or> seniority requirements = ''lead''
           \<or> seniority requirements = ''manager''
        then [weight_leadership w] else [])"
  define c where "c = (if companyType requirements = Some ''startup''
           \<or> companyType requirements = Some ''scaleup''
        then [weight_startup w]
        else if companyType requirements = Some ''enterprise''
                \<or> companyType requirements = Some ''faang''
        then [weight_enterprise w]
        else [])"
  have app: "applicableWeights w requirements = a @ b @ c"
    by (simp add: applicableWeights_def a_def b_def c_def)
  define acc1 where "acc1 =
     (if list_ex (\<lambda>t. t \<in> set mobileTechs) (requiredTechnologies requirements)
      then addWeight (weight_mobile w) (0, 0) else (0, 0))"
  define acc2 where "acc2 =
     (if leadershipRequired requirements \<or> seniority requirements = ''lead''
         \<or> seniority requirements = ''manager''
      then addWeight (weight_leadership w) acc1 else acc1)"
  define acc3 where "acc3 =
     (if companyType requirements = Some ''startup''
         \<or> companyType requirements = Some ''scaleup''
      then addWeight (weight_startup w) acc2
      else if companyType requirements = Some ''enterprise''
              \<or> companyType requirements = Some ''faang''
      then addWeight (weight_enterprise w) acc2
      else acc2)"
  have score: "scoreRelevanceWeights job requirements
                 = (if snd acc3 = 0 then 0.5 else fst acc3 / real (snd acc3))"
    by (simp add: scoreRelevanceWeights_def assms Let_def acc1_def acc2_def acc3_def)
  have a1: "acc1 = (sum_list (nonZeroWeights a), length (nonZeroWeights a))"
    by (simp add: acc1_def a_def addWeight_nonZero nonZeroWeights_Nil)
  have a2: "acc2 = (fst acc1 + sum_list (nonZeroWeights b), snd acc1 + length (nonZeroWeights b))"
    by (simp add: acc2_def b_def addWeight_nonZero nonZeroWeights_Nil)
  have a3: "acc3 = (fst acc2 + sum_list (nonZeroWeights c), snd acc2 + length (nonZeroWeights c))"
    by (simp add: acc3_def c_def addWeight_nonZero nonZeroWeights_Nil)
  have "acc3 = (sum_list (nonZeroWeights (a @ b @ c)), length (nonZeroWeights (a @ b @ c)))"
    by (simp add: a3 a2 a1 nonZeroWeights_append)
  with score app show ?thesis
    by simp
qed

lemma nonZeroWeights_all_zero:
  "list_all (\<lambda>x. x = None \<or> x = Some 0) ws \<Longrightarrow> nonZeroWeights ws = []"
  by (induction ws) (auto simp: nonZeroWeights_def)

lemma nonZeroWeights_zeroAsAbsent: "nonZeroWeights (map zeroAsAbsent ws) = nonZeroWeights ws"
  by (induction ws) (auto simp: nonZeroWeights_def zeroAsAbsent_def split: option.splits)

lemma applicableWeights_zeroWeightsAsAbsent:
  "applicableWeights (zeroWeightsAsAbsent w) requirements
     = map zeroAsAbsent (applicableWeights w requirements)"
  by (simp add: applicableWeights_def zeroWeightsAsAbsent_def)

text \<open>
  C10. In \<open>scoreRelevanceWeights\<close> an applicable weight of value 0 counts as an absent
  one: the score is the average of the applicable weights that are present and not 0, and
  0.5 when there is none; so a job whose applicable weights are all 0 (or absent) scores
  0.5, and making every weight of value 0 absent does not change the score.
\<close>

theorem scoreRelevanceWeights_zero_as_absent:
  assumes "relevanceWeights job = Some w"
  shows "scoreRelevanceWeights job requirements =
           (if nonZeroWeights (applicableWeights w requirements) = [] then 0.5
            else sum_list (nonZeroWeights (applicableWeights w requirements))
                 / real (length (nonZeroWeights (applicableWeights w requirements))))
       \<and> (list_all (\<lambda>x. x = None \<or> x = Some 0) (applicableWeights w requirements) \<longrightarrow>
            scoreRelevanceWeights job requirements = 0.5)
       \<and> scoreRelevanceWeights (job\<lparr>relevanceWeights := Some (zeroWeightsAsAbsent w)\<rparr>)
            requirements
          = scoreRelevanceWeights job requirements"
proof -
  note avg = scoreRelevanceWeights_average [OF assms, of requirements]
  have zero: "scoreRelevanceWeights job requirements = 0.5"
    if "list_all (\<lambda>x. x = None \<or> x = Some 0) (applicableWeights w requirements)"
    using nonZeroWeights_all_zero [OF that] by (simp add: avg)
  have "relevanceWeights (job\<lparr>relevanceWeights := Some (zeroWeightsAsAbsent w)\<rparr>)
          = Some (zeroWeightsAsAbsent w)"
    by simp
  from scoreRelevanceWeights_average [OF this, of requirements]
  have "scoreRelevanceWeights (job\<lparr>relevanceWeights := Some (zeroWeightsAsAbsent w)\<rparr>)
            requirements
          = scoreRelevanceWeights job requirements"
    by (simp only: avg applicableWeights_zeroWeightsAsAbsent nonZeroWeights_zeroAsAbsent)
  with avg zero show ?thesis
    by blast
qed

theorem scoreRelevanceWeights_zero_as_absent_witness:
  "relevanceWeights (exampleJob\<lparr>relevanceWeights := Some exampleWeights\<rparr>) = Some exampleWeights
   \<and> applicableWeights exampleWeights exampleRequirements = [Some 0]
   \<and> scoreRelevanceWeights (exampleJob\<lparr>relevanceWeights := Some exampleWeights\<rparr>)
        exampleRequirements = 0.5"
proof -
  have w: "relevanceWeights (exampleJob\<lparr>relevanceWeights := Some exampleWeights\<rparr>)
             = Some exampleWeights"
    by simp
  have a: "applicableWeights exampleWeights exampleRequirements = [Some 0]"
    by (simp add: applicableWeights_def exampleWeights_def exampleRequirements_def
        mobileTechs_def)
  from scoreRelevanceWeights_zero_as_absent [OF w, of exampleRequirements] w a show ?thesis
    by simp
qed

section \<open>Technology coverage\<close>

lemma list_ex_find: "list_ex P xs \<longleftrightarrow> find P xs \<noteq> None"
  by (auto simp: find_None_iff list_ex_iff)

lemma covered_coverageEntry:
  "covered (coverageEntry ms jobs t)
     = (list_ex (\<lambda>s. techMatches (skill_name s) t) ms
        \<or> list_ex (\<lambda>job. list_ex (\<lambda>x. techMatches x t) (technologies job)) jobs)"
  by (simp add: coverageEntry_def list_ex_find split: option.splits)

lemma covered_more_jobs:
  "covered (coverageEntry ms jobs t) \<Longrightarrow> covered (coverageEntry ms (jobs @ added) t)"
  by (auto simp: covered_coverageEntry list_ex_iff)

lemma coveredCount_more_jobs:
  "length (filter covered (map (coverageEntry ms jobs) ts))
     \<le> length (filter covered (map (coverageEntry ms (jobs @ added)) ts))"
proof (induction ts)
  case Nil
  then show ?case by simp
next
  case (Cons t ts)
  then show ?case
    using covered_more_jobs [of ms jobs t added] by auto
qed

lemma mathRound_mono: "x \<le> y \<Longrightarrow> mathRound x \<le> mathRound y"
  by (simp add: mathRound_def floor_mono)

lemma coveragePercent_more_jobs:
  "coveragePercent (analyzeTechnologyCoverage skills jobs requirements)
     \<le> coveragePercent (analyzeTechnologyCoverage skills (jobs @ added) requirements)"
proof -
  define found where "found = findMatchingSkills skills (requiredTechnologies requirements)
                    (preferredTechnologies requirements)"
  define n :: nat where "n = (if length (requiredTechnologies requirements) = 0 then 1
                       else length (requiredTechnologies requirements))"
  define m :: nat where "m = (if length (preferredTechnologies requirements) = 0 then 1
                       else length (preferredTechnologies requirements))"
  define a where "a js = length (filter covered (map (coverageEntry (ms_required found) js)
                            (requiredTechnologies requirements)))" for js
  define b where "b js = length (filter covered (map (coverageEntry (ms_preferred found) js)
                            (preferredTechnologies requirements)))" for js
  have percent: "coveragePercent (analyzeTechnologyCoverage skills js requirements)
                   = mathRound ((real (a js) / real n * 0.7 + real (b js) / real m * 0.3) * 100)"
    for js
    by (simp add: analyzeTechnologyCoverage_def Let_def found_def n_def m_def a_def b_def)
  have "a jobs \<le> a (jobs @ added)" and "b jobs \<le> b (jobs @ added)"
    unfolding a_def b_def by (rule coveredCount_more_jobs)+
  then have "real (a jobs) / real n \<le> real (a (jobs @ added)) / real n"
    and "real (b jobs) / real m \<le> real (b (jobs @ added)) / real m"
    by (simp_all add: divide_right_mono)
  then have "(real (a jobs) / real n * 0.7 + real (b jobs) / real m * 0.3) * 100
               \<le> (real (a (jobs @ added)) / real n * 0.7 + real (b (jobs @ added)) / real m * 0.3) * 100"
    by simp
  then show ?thesis
    unfolding percent by (rule mathRound_mono)
qed

text \<open>
  C6. The coverage percent is monotone in the job list: for every skills inventory, every
  requirements and every job list, appending a normalized job never decreases the
  \<open>coveragePercent\<close> that \<open>analyzeTechnologyCoverage\<close> returns.
\<close>

theorem coveragePercent_monotone:
  "coveragePercent (analyzeTechnologyCoverage skills jobs requirements)
     \<le> coveragePercent (analyzeTechnologyCoverage skills (jobs @ [job]) requirements)"
  by (rule coveragePercent_more_jobs)

text \<open>
  C1 says that \<open>analyzeTechnologyCoverage\<close> reports a coverage of 100 percent when the
  required and the preferred technologies are both empty. The code reports 0, for every
  skills inventory and every job list: the totals \<^verbatim>\<open>length || 1\<close> are 1 and both counts of
  covered entries are 0. The function \<open>calculateTechCoverage\<close> of the technology matcher
  takes the coverage of an empty list to be 1, and its overall coverage is then 1.
\<close>

theorem analyzeTechnologyCoverage_empty_requirements:
  "coveragePercent
     (analyzeTechnologyCoverage skills jobs
        (requirements\<lparr>requiredTechnologies := [], preferredTechnologies := []\<rparr>)) = 0
   \<and> overallCoverage (calculateTechCoverage candidateTechs [] []) = 1"
  by (simp add: analyzeTechnologyCoverage_def calculateTechCoverage_def mathRound_def Let_def)

section \<open>Normalizing a job\<close>

text \<open>
  \<open>normalizeJob\<close> fails with the error "unknown job format" if and only if the record
  passes neither of the two guards of the code: \<open>isEnhancedJob\<close> (the type of its company
  field is object) and \<open>isBasicJob\<close> (the type of its company field is string); an
  enhanced job and a basic job are normalized without an error.
\<close>

lemma normalizeJob_unknown_format:
  "(normalizeJob job = Inl UnknownJobFormat \<longleftrightarrow> \<not> isEnhancedJob job \<and> \<not> isBasicJob job)
   \<and> (isEnhancedJob job \<longleftrightarrow> typeofCompany job = TypeObject)
   \<and> (isBasicJob job \<longleftrightarrow> typeofCompany job = TypeString)
   \<and> normalizeJob (Enhanced e) = Inr (normalizeEnhancedJob e)
   \<and> normalizeJob (Basic b) = Inr (normalizeBasicJob b)"
proof -
  have "normalizeJob job = Inl UnknownJobFormat \<longleftrightarrow> \<not> isEnhancedJob job \<and> \<not> isBasicJob job"
  proof (cases job)
    case (OtherCompany v)
    then show ?thesis
      by (cases v) (simp_all add: normalizeJob_def isEnhancedJob_def isBasicJob_def)
  qed (simp_all add: normalizeJob_def isEnhancedJob_def isBasicJob_def)
  then show ?thesis
    by (simp add: normalizeJob_def isEnhancedJob_def isBasicJob_def)
qed

text \<open>
  C7. The claim: \<open>normalizeJob\<close> fails with its tagged error "unknown job format" exactly
  when the company field of the record is neither a string nor an object. A record whose
  company field is \<^verbatim>\<open>null\<close> has neither shape, and the failure is not the tagged one: the
  type of \<^verbatim>\<open>null\<close> is object, so the record passes \<open>isEnhancedJob\<close>, and
  \<^verbatim>\<open>normalizeEnhancedJob\<close> fails with a \<^verbatim>\<open>TypeError\<close> when it reads \<^verbatim>\<open>job.company.name\<close>. A
  record whose company field is \<^verbatim>\<open>undefined\<close>, a number or a boolean fails with the
  tagged error.
\<close>

theorem normalizeJob_null_company:
  "typeofCompany (OtherCompany JsNull) = TypeObject
   \<and> isEnhancedJob (OtherCompany JsNull)
   \<and> \<not> isBasicJob (OtherCompany JsNull)
   \<and> normalizeJob (OtherCompany JsNull) = Inl TypeError
   \<and> normalizeJob (OtherCompany JsNull) \<noteq> Inl UnknownJobFormat
   \<and> normalizeJob (OtherCompany JsUndefined) = Inl UnknownJobFormat
   \<and> normalizeJob (OtherCompany (JsNumber 1)) = Inl UnknownJobFormat
   \<and> normalizeJob (OtherCompany (JsBoolean True)) = Inl UnknownJobFormat"
  by (simp add: normalizeJob_def isEnhancedJob_def isBasicJob_def)

section \<open>Selection\<close>

lemma set_insertBy: "set (insertBy cmp x xs) = insert x (set xs)"
  by (induction xs) auto

lemma length_insertBy: "length (insertBy cmp x xs) = Suc (length xs)"
  by (induction xs) auto

lemma set_sortBy: "set (sortBy cmp xs) = set xs"
  by (induction xs) (simp_all add: sortBy_def set_insertBy)

lemma length_sortBy: "length (sortBy cmp xs) = length xs"
  by (induction xs) (simp_all add: sortBy_def length_insertBy)

lemma sorted_insertBy:
  assumes total: "\<And>a b. cmp a b \<le> 0 \<or> cmp b a \<le> 0"
    and trans: "\<And>a b c. cmp a b \<le> 0 \<Longrightarrow> cmp b c \<le> 0 \<Longrightarrow> cmp a c \<le> 0"
    and sorted: "sorted_wrt (\<lambda>a b. cmp a b \<le> 0) xs"
  shows "sorted_wrt (\<lambda>a b. cmp a b \<le> 0) (insertBy cmp x xs)"
  using sorted
proof (induction xs)
  case Nil
  then show ?case by simp
next
  case (Cons y ys)
  show ?case
  proof (cases "cmp x y \<le> 0")
    case True
    have "cmp x z \<le> 0" if "z \<in> set ys" for z
      using Cons.prems that trans [OF True, of z] by auto
    with True Cons.prems show ?thesis by auto
  next
    case False
    with total [of x y] have "cmp y x \<le> 0" by simp
    with False Cons show ?thesis
      by (auto simp: set_insertBy)
  qed
qed

lemma sorted_sortBy:
  assumes total: "\<And>a b. cmp a b \<le> 0 \<or> cmp b a \<le> 0"
    and trans: "\<And>a b c. cmp a b \<le> 0 \<Longrightarrow> cmp b c \<le> 0 \<Longrightarrow> cmp a c \<le> 0"
  shows "sorted_wrt (\<lambda>a b. cmp a b \<le> 0) (sortBy cmp xs)"
proof (induction xs)
  case Nil
  then show ?case by (simp add: sortBy_def)
next
  case (Cons x xs)
  have "sortBy cmp (x # xs) = insertBy cmp x (sortBy cmp xs)"
    by (simp add: sortBy_def)
  with sorted_insertBy [of cmp "sortBy cmp xs" x, OF total trans Cons.IH] show ?case
    by simp
qed

lemma selected_length:
  assumes "k \<le> length xs"
  shows "length (take (min (max mn k) mx) xs) \<le> mx
       \<and> (mn \<le> mx \<and> mn \<le> length xs \<longrightarrow> mn \<le> length (take (min (max mn k) mx) xs))"
  using assms by auto

lemma sorted_by_score:
  fixes f :: "'a \<Rightarrow> real"
  shows "sorted_wrt (\<lambda>a b. f b \<le> f a) (take n (sortBy (\<lambda>a b. f b - f a) xs))"
proof -
  have "sorted_wrt (\<lambda>a b. f b - f a \<le> 0) (sortBy (\<lambda>a b. f b - f a) xs)"
    by (rule sorted_sortBy) auto
  then have "sorted_wrt (\<lambda>a b. f b \<le> f a) (sortBy (\<lambda>a b. f b - f a) xs)"
    by simp
  then show ?thesis
    by (rule sorted_wrt_take)
qed

lemma compareSkills_le:
  "compareSkills a b \<le> 0 \<longleftrightarrow>
     (isRequired a \<and> \<not> isRequired b)
     \<or> (isRequired a = isRequired b
         \<and> ((isPreferred a \<and> \<not> isPreferred b)
             \<or> (isPreferred a = isPreferred b \<and> ss_score b \<le> ss_score a)))"
  by (auto simp: compareSkills_def)

lemma compareSkills_total: "compareSkills a b \<le> 0 \<or> compareSkills b a \<le> 0"
  unfolding compareSkills_le by auto

lemma compareSkills_trans:
  "compareSkills a b \<le> 0 \<Longrightarrow> compareSkills b c \<le> 0 \<Longrightarrow> compareSkills a c \<le> 0"
  unfolding compareSkills_le by auto

lemma scoredSkills_flags:
  "s \<in> set (scoredSkills currentYear skills requirements) \<Longrightarrow> \<not> (isRequired s \<and> isPreferred s)"
  by (auto simp: scoredSkills_def Let_def)

lemma compareSkills_skillOrder:
  "\<not> (isRequired a \<and> isPreferred a) \<Longrightarrow> \<not> (isRequired b \<and> isPreferred b)
   \<Longrightarrow> compareSkills a b \<le> 0 \<Longrightarrow> skillOrder a b"
  unfolding compareSkills_le by (auto simp: skillOrder_def skillRank_def)

lemma selectSkills_sorted:
  "sorted_wrt skillOrder (selectSkills currentYear skills requirements config)"
proof -
  let ?xs = "scoredSkills currentYear skills requirements"
  have "sorted_wrt (\<lambda>a b. compareSkills a b \<le> 0) (sortBy compareSkills ?xs)"
    by (rule sorted_sortBy) (rule compareSkills_total, rule compareSkills_trans)
  then have "sorted_wrt skillOrder (sortBy compareSkills ?xs)"
  proof (rule sorted_wrt_mono_rel [rotated])
    fix a b
    assume "a \<in> set (sortBy compareSkills ?xs)" "b \<in> set (sortBy compareSkills ?xs)"
      and "compareSkills a b \<le> 0"
    then show "skillOrder a b"
      by (simp add: set_sortBy compareSkills_skillOrder scoredSkills_flags)
  qed
  then show ?thesis
    by (simp add: selectSkills_def Let_def sorted_wrt_take)
qed

lemma length_filter_groups:
  "length (filter P xs) + (length (filter (\<lambda>x. \<not> P x \<and> Q x) xs)
     + length (filter R (filter (\<lambda>x. \<not> P x \<and> \<not> Q x) xs)))
   = length (filter (\<lambda>x. P x \<or> Q x \<or> R x) xs)"
  by (induction xs) auto

lemma length_scoredSkills:
  "length (scoredSkills currentYear skills requirements)
     = length (filter (isCandidateSkill skills requirements) (getAllSkills skills))"
proof -
  have c: "isCandidateSkill skills requirements
             = (\<lambda>skill. skillMatchesAny skill (requiredTechnologies requirements)
                  \<or> skillMatchesAny skill (preferredTechnologies requirements)
                  \<or> (\<not> isDeprecated (skill_name skill) skills
                      \<and> (isFeatured (skill_name skill) skills \<or> skill_level skill = expert
                           \<or> wantToUse skill)))"
    by (rule ext) (simp add: isCandidateSkill_def)
  show ?thesis
    unfolding c length_filter_groups [symmetric]
    by (simp add: scoredSkills_def findMatchingSkills_def Let_def)
qed

lemma scoredSkills_member:
  assumes "s \<in> set (scoredSkills currentYear skills requirements)"
  shows "ss_skill s \<in> set (getAllSkills skills)
       \<and> isCandidateSkill skills requirements (ss_skill s)
       \<and> isRequired s = skillMatchesAny (ss_skill s) (requiredTechnologies requirements)
       \<and> isPreferred s
           = (\<not> skillMatchesAny (ss_skill s) (requiredTechnologies requirements)
              \<and> skillMatchesAny (ss_skill s) (preferredTechnologies requirements))
       \<and> ss_score s
           = calculateSkillScore currentYear (ss_skill s) skills (isRequired s) (isPreferred s)"
  using assms
  by (auto simp: scoredSkills_def findMatchingSkills_def Let_def isCandidateSkill_def)

lemma selectSkills_member:
  assumes "s \<in> set (selectSkills currentYear skills requirements config)"
  shows "ss_skill s \<in> set (getAllSkills skills)
       \<and> isCandidateSkill skills requirements (ss_skill s)
       \<and> isRequired s = skillMatchesAny (ss_skill s) (requiredTechnologies requirements)
       \<and> isPreferred s
           = (\<not> skillMatchesAny (ss_skill s) (requiredTechnologies requirements)
              \<and> skillMatchesAny (ss_skill s) (preferredTechnologies requirements))
       \<and> ss_score s
           = calculateSkillScore currentYear (ss_skill s) skills (isRequired s) (isPreferred s)"
proof -
  from assms have "s \<in> set (scoredSkills currentYear skills requirements)"
    unfolding selectSkills_def Let_def by (auto dest: in_set_takeD simp: set_sortBy)
  then show ?thesis
    by (rule scoredSkills_member)
qed

lemma selectProjects_member:
  assumes "p \<in> set (selectProjects jobs requirements config)"
  shows "\<exists>job\<in>set jobs. \<exists>project\<in>set (projects job). p = scoreProject project requirements"
proof -
  from assms
  have "p \<in> set (concat (map (\<lambda>job. map (\<lambda>project. scoreProject project requirements)
                                       (projects job)) jobs))"
    unfolding selectProjects_def Let_def by (auto dest: in_set_takeD simp: set_sortBy)
  then show ?thesis
    by auto
qed

lemma selectAchievements_member:
  assumes "a \<in> set (selectAchievements jobs requirements config)"
  shows "\<exists>job\<in>set jobs. \<exists>achievement\<in>set (achievements job).
           a = scoreAchievement achievement requirements"
proof -
  from assms
  have "a \<in> set (concat (map (\<lambda>job. map (\<lambda>achievement.
                     scoreAchievement achievement requirements) (achievements job)) jobs))"
    unfolding selectAchievements_def Let_def by (auto dest: in_set_takeD simp: set_sortBy)
  then show ?thesis
    by auto
qed

text \<open>
  C3, as stated, fails for the skills. The pool of \<open>selectSkills\<close> is the skill inventory.
  The inventory \<open>twoSkillInventory\<close> has two skills, the configured minimum is 2 and the
  maximum 15, and the requirements name no technology; one skill is returned: the other
  one matches no technology and is neither featured, of expert level nor wanted, and
  such a skill is never a candidate.
\<close>

theorem selectSkills_inventory_counterexample:
  "minSkillsToShow (DEFAULT_MATCH_CONFIG\<lparr>minSkillsToShow := 2\<rparr>) = 2
   \<and> maxSkillsToShow (DEFAULT_MATCH_CONFIG\<lparr>minSkillsToShow := 2\<rparr>) = 15
   \<and> length (getAllSkills twoSkillInventory) = 2
   \<and> length (selectSkills 2026 twoSkillInventory
               (exampleRequirements\<lparr>requiredTechnologies := []\<rparr>)
               (DEFAULT_MATCH_CONFIG\<lparr>minSkillsToShow := 2\<rparr>)) = 1
   \<and> map (\<lambda>s. skill_name (ss_skill s))
         (selectSkills 2026 twoSkillInventory
            (exampleRequirements\<lparr>requiredTechnologies := []\<rparr>)
            (DEFAULT_MATCH_CONFIG\<lparr>minSkillsToShow := 2\<rparr>)) = [''Swift'']"
  by (simp add: selectSkills_def scoredSkills_def findMatchingSkills_def getAllSkills_def
      skillMatchesAny_def isDeprecated_def isFeatured_def exampleRequirements_def
      twoSkillInventory_def DEFAULT_MATCH_CONFIG_def sortBy_def Let_def)

text \<open>
  C3, amended. The candidates of \<open>selectProjects\<close> and \<open>selectAchievements\<close> are the
  projects and the achievements of all jobs; the candidates of \<open>selectSkills\<close> are the
  skills of the inventory that match a required or a preferred technology, or are not
  deprecated and are featured, of expert level or wanted (\<open>isCandidateSkill\<close>). For every
  configuration with \<open>minToShow \<le> maxToShow\<close> and every input with at least \<open>minToShow\<close>
  candidates, each returned list has between \<open>minToShow\<close> and \<open>maxToShow\<close> elements. For
  every input each returned list has at most \<open>maxToShow\<close> elements and is sorted by
  descending score, the skills by group (required, preferred, other) first. Every
  returned project and achievement is one of a job, scored by \<open>scoreProject\<close> and
  \<open>scoreAchievement\<close>; every returned skill is a candidate of the inventory, is marked
  required exactly when it matches a required technology, preferred exactly when it
  matches no required and a preferred one, and carries the score that
  \<open>calculateSkillScore\<close> gives it in its group.
\<close>

theorem selectors_bounded_and_sorted:
  "(minProjectsToShow config \<le> maxProjectsToShow config
      \<and> minProjectsToShow config \<le> length (concat (map projects jobs)) \<longrightarrow>
      minProjectsToShow config \<le> length (selectProjects jobs requirements config))
   \<and> length (selectProjects jobs requirements config) \<le> maxProjectsToShow config
   \<and> sorted_wrt (\<lambda>a b. sp_score b \<le> sp_score a) (selectProjects jobs requirements config)
   \<and> (minAchievementsToShow config \<le> maxAchievementsToShow config
      \<and> minAchievementsToShow config \<le> length (concat (map achievements jobs)) \<longrightarrow>
      minAchievementsToShow config \<le> length (selectAchievements jobs requirements config))
   \<and> length (selectAchievements jobs requirements config) \<le> maxAchievementsToShow config
   \<and> sorted_wrt (\<lambda>a b. sa_score b \<le> sa_score a)
         (selectAchievements jobs requirements config)
   \<and> (minSkillsToShow config \<le> maxSkillsToShow config
      \<and> minSkillsToShow config
           \<le> length (filter (isCandidateSkill skills requirements) (getAllSkills skills)) \<longrightarrow>
      minSkillsToShow config \<le> length (selectSkills currentYear skills requirements config))
   \<and> length (selectSkills currentYear skills requirements config) \<le> maxSkillsToShow config
   \<and> sorted_wrt skillOrder (selectSkills currentYear skills requirements config)
   \<and> (\<forall>p\<in>set (selectProjects jobs requirements config).
         \<exists>job\<in>set jobs. \<exists>project\<in>set (projects job).
           p = scoreProject project requirements)
   \<and> (\<forall>a\<in>set (selectAchievements jobs requirements config).
         \<exists>job\<in>set jobs. \<exists>achievement\<in>set (achievements job).
           a = scoreAchievement achievement requirements)
   \<and> (\<forall>s\<in>set (selectSkills currentYear skills requirements config).
         ss_skill s \<in> set (getAllSkills skills)
         \<and> isCandidateSkill skills requirements (ss_skill s)
         \<and> isRequired s = skillMatchesAny (ss_skill s) (requiredTechnologies requirements)
         \<and> isPreferred s
             = (\<not> skillMatchesAny (ss_skill s) (requiredTechnologies requirements)
                \<and> skillMatchesAny (ss_skill s) (preferredTechnologies requirements))
         \<and> ss_score s
             = calculateSkillScore currentYear (ss_skill s) skills (isRequired s)
                 (isPreferred s))"
proof -
  define ps where "ps = sortBy (\<lambda>a b. sp_score b - sp_score a)
     (concat (map (\<lambda>job. map (\<lambda>project. scoreProject project requirements) (projects job))
        jobs))"
  define as where "as = sortBy (\<lambda>a b. sa_score b - sa_score a)
     (concat (map (\<lambda>job. map (\<lambda>achievement. scoreAchievement achievement requirements)
                         (achievements job)) jobs))"
  define ss where "ss = sortBy compareSkills (scoredSkills currentYear skills requirements)"
  have lp: "length ps = length (concat (map projects jobs))"
    by (simp add: ps_def length_sortBy length_concat comp_def)
  have la: "length as = length (concat (map achievements jobs))"
    by (simp add: as_def length_sortBy length_concat comp_def)
  have ls: "length ss
              = length (filter (isCandidateSkill skills requirements) (getAllSkills skills))"
    by (simp add: ss_def length_sortBy length_scoredSkills)
  have p: "selectProjects jobs requirements config
             = take (min (max (minProjectsToShow config)
                            (length (filter (\<lambda>p. sp_score p > 0.5) ps)))
                       (maxProjectsToShow config)) ps"
    by (simp add: selectProjects_def Let_def ps_def)
  have a: "selectAchievements jobs requirements config
             = take (min (max (minAchievementsToShow config)
                            (length (filter (\<lambda>a. sa_score a > 0.5) as)))
                       (maxAchievementsToShow config)) as"
    by (simp add: selectAchievements_def Let_def as_def)
  have s: "selectSkills currentYear skills requirements config
             = take (min (max (minSkillsToShow config)
                            (length (filter (\<lambda>s. isRequired s \<or> isPreferred s) ss)))
                       (maxSkillsToShow config)) ss"
    by (simp add: selectSkills_def Let_def ss_def)
  note bp = selected_length [of "length (filter (\<lambda>p. sp_score p > 0.5) ps)" ps
      "minProjectsToShow config" "maxProjectsToShow config", OF length_filter_le,
      folded p, unfolded lp]
  note ba = selected_length [of "length (filter (\<lambda>a. sa_score a > 0.5) as)" as
      "minAchievementsToShow config" "maxAchievementsToShow config", OF length_filter_le,
      folded a, unfolded la]
  note bs = selected_length [of "length (filter (\<lambda>s. isRequired s \<or> isPreferred s) ss)" ss
      "minSkillsToShow config" "maxSkillsToShow config", OF length_filter_le,
      folded s, unfolded ls]
  have sp: "sorted_wrt (\<lambda>a b. sp_score b \<le> sp_score a) (selectProjects jobs requirements config)"
    unfolding p ps_def by (rule sorted_by_score)
  have sa: "sorted_wrt (\<lambda>a b. sa_score b \<le> sa_score a)
              (selectAchievements jobs requirements config)"
    unfolding a as_def by (rule sorted_by_score)
  have mp: "\<forall>p\<in>set (selectProjects jobs requirements config).
              \<exists>job\<in>set jobs. \<exists>project\<in>set (projects job).
                p = scoreProject project requirements"
    by (rule ballI) (rule selectProjects_member)
  have ma: "\<forall>a\<in>set (selectAchievements jobs requirements config).
              \<exists>job\<in>set jobs. \<exists>achievement\<in>set (achievements job).
                a = scoreAchievement achievement requirements"
    by (rule ballI) (rule selectAchievements_member)
  have ms: "\<forall>s\<in>set (selectSkills currentYear skills requirements config).
         ss_skill s \<in> set (getAllSkills skills)
         \<and> isCandidateSkill skills requirements (ss_skill s)
         \<and> isRequired s = skillMatchesAny (ss_skill s) (requiredTechnologies requirements)
         \<and> isPreferred s
             = (\<not> skillMatchesAny (ss_skill s) (requiredTechnologies requirements)
                \<and> skillMatchesAny (ss_skill s) (preferredTechnologies requirements))
         \<and> ss_score s
             = calculateSkillScore currentYear (ss_skill s) skills (isRequired s)
                 (isPreferred s)"
    by (rule ballI) (rule selectSkills_member)
  note so = selectSkills_sorted [of currentYear skills requirements config]
  from bp ba bs show ?thesis
    by (intro conjI sp sa so mp ma ms) blast+
qed

theorem selectors_bounded_and_sorted_witness:
  "minProjectsToShow DEFAULT_MATCH_CONFIG \<le> maxProjectsToShow DEFAULT_MATCH_CONFIG
   \<and> minProjectsToShow DEFAULT_MATCH_CONFIG
       \<le> length (concat (map projects
            [exampleJob\<lparr>projects := exampleProjects, achievements := exampleAchievements\<rparr>]))
   \<and> minProjectsToShow DEFAULT_MATCH_CONFIG
       \<le> length (selectProjects
            [exampleJob\<lparr>projects := exampleProjects, achievements := exampleAchievements\<rparr>]
            exampleRequirements DEFAULT_MATCH_CONFIG)
   \<and> minAchievementsToShow DEFAULT_MATCH_CONFIG \<le> maxAchievementsToShow DEFAULT_MATCH_CONFIG
   \<and> minAchievementsToShow DEFAULT_MATCH_CONFIG
       \<le> length (concat (map achievements
            [exampleJob\<lparr>projects := exampleProjects, achievements := exampleAchievements\<rparr>]))
   \<and> minAchievementsToShow DEFAULT_MATCH_CONFIG
       \<le> length (selectAchievements
            [exampleJob\<lparr>projects := exampleProjects, achievements := exampleAchievements\<rparr>]
            exampleRequirements DEFAULT_MATCH_CONFIG)
   \<and> minSkillsToShow (DEFAULT_MATCH_CONFIG\<lparr>minSkillsToShow := 4\<rparr>)
       \<le> maxSkillsToShow (DEFAULT_MATCH_CONFIG\<lparr>minSkillsToShow := 4\<rparr>)
   \<and> minSkillsToShow (DEFAULT_MATCH_CONFIG\<lparr>minSkillsToShow := 4\<rparr>)
       \<le> length (filter (isCandidateSkill exampleSkills
                             (exampleRequirements\<lparr>requiredTechnologies := []\<rparr>))
                    (getAllSkills exampleSkills))
   \<and> minSkillsToShow (DEFAULT_MATCH_CONFIG\<lparr>minSkillsToShow := 4\<rparr>)
       \<le> length (selectSkills 2026 exampleSkills
                    (exampleRequirements\<lparr>requiredTechnologies := []\<rparr>)
                    (DEFAULT_MATCH_CONFIG\<lparr>minSkillsToShow := 4\<rparr>))"
proof -
  let ?jobs = "[exampleJob\<lparr>projects := exampleProjects, achievements := exampleAchievements\<rparr>]"
  let ?req = "exampleRequirements\<lparr>requiredTechnologies := []\<rparr>"
  let ?cfg = "DEFAULT_MATCH_CONFIG\<lparr>minSkillsToShow := 4\<rparr>"
  have h1: "minProjectsToShow DEFAULT_MATCH_CONFIG \<le> maxProjectsToShow DEFAULT_MATCH_CONFIG"
    and h3: "minAchievementsToShow DEFAULT_MATCH_CONFIG
               \<le> maxAchievementsToShow DEFAULT_MATCH_CONFIG"
    and h5: "minSkillsToShow ?cfg \<le> maxSkillsToShow ?cfg"
    by (simp_all add: DEFAULT_MATCH_CONFIG_def)
  have h2: "minProjectsToShow DEFAULT_MATCH_CONFIG \<le> length (concat (map projects ?jobs))"
    by (simp add: DEFAULT_MATCH_CONFIG_def exampleProjects_def)
  have h4: "minAchievementsToShow DEFAULT_MATCH_CONFIG
              \<le> length (concat (map achievements ?jobs))"
    by (simp add: DEFAULT_MATCH_CONFIG_def exampleAchievements_def)
  have h6: "minSkillsToShow ?cfg
              \<le> length (filter (isCandidateSkill exampleSkills ?req) (getAllSkills exampleSkills))"
    by (simp add: isCandidateSkill_def getAllSkills_def skillMatchesAny_def
        isDeprecated_def isFeatured_def exampleSkills_def exampleRequirements_def)
  from selectors_bounded_and_sorted [of DEFAULT_MATCH_CONFIG ?jobs exampleRequirements]
    h1 h2 h3 h4
  have a: "minProjectsToShow DEFAULT_MATCH_CONFIG
             \<le> length (selectProjects ?jobs exampleRequirements DEFAULT_MATCH_CONFIG)"
    and b: "minAchievementsToShow DEFAULT_MATCH_CONFIG
             \<le> length (selectAchievements ?jobs exampleRequirements DEFAULT_MATCH_CONFIG)"
    by blast+
  from selectors_bounded_and_sorted [of ?cfg _ ?req exampleSkills 2026] h5 h6
  have c: "minSkillsToShow ?cfg \<le> length (selectSkills 2026 exampleSkills ?req ?cfg)"
    by blast
  from h1 h2 h3 h4 h5 h6 a b c show ?thesis
    by blast
qed

section \<open>Score bounds\<close>

lemma inUnit_min: "0 \<le> x \<Longrightarrow> inUnit (min 1 x)"
  by (simp add: inUnit_def)

lemma scoreTechnologyMatch_inUnit: "inUnit (scoreTechnologyMatch job requirements)"
  by (simp add: scoreTechnologyMatch_def Let_def inUnit_def)

lemma orZero_nonneg: "validWeight w \<Longrightarrow> 0 \<le> orZero w"
  by (cases w) (simp_all add: validWeight_def orZero_def inUnit_def)

lemma add_if_nonneg: "0 \<le> d \<Longrightarrow> x \<le> (if c then x + d else x)" for x d :: real
  by simp

lemma scoreDomainMatch_inUnit:
  assumes "validRelevanceWeights job"
  shows "inUnit (scoreDomainMatch job requirements)"
proof -
  define industry where
    "industry = (case companyInfo job of None \<Rightarrow> None | Some c \<Rightarrow> company_industry c)"
  define s1 :: real where "s1 =
     (if truthy industry \<and> truthy (domain requirements)
      then (if includesStr (toLowerCase (the industry)) (toLowerCase (the (domain requirements)))
               \<or> includesStr (toLowerCase (the (domain requirements))) (toLowerCase (the industry))
            then 0.5 + 0.3 else 0.5)
      else 0.5)"
  define wstep :: "RelevanceWeights \<Rightarrow> real" where "wstep w =
     (let score = (if domain requirements = Some ''fintech''
                      \<or> domain requirements = Some ''crypto''
                   then s1 + orZero (weight_mobile w) * 0.1 else s1);
          score = (if companyType requirements = Some ''startup''
                      \<or> companyType requirements = Some ''scaleup''
                   then score + orZero (weight_startup w) * 0.15 else score);
          score = (if companyType requirements = Some ''enterprise''
                      \<or> companyType requirements = Some ''faang''
                   then score + orZero (weight_enterprise w) * 0.15 else score);
          score = (if leadershipRequired requirements
                   then score + orZero (weight_leadership w) * 0.1 else score)
      in score)" for w
  define s2 where "s2 = (case relevanceWeights job of None \<Rightarrow> s1 | Some w \<Rightarrow> wstep w)"
  define domains where
    "domains = (case job_keywords job of None \<Rightarrow> None | Some k \<Rightarrow> keywords_domains k)"
  define s3 where "s3 =
     (if domains \<noteq> None \<and> truthy (domain requirements)
      then (if list_ex (\<lambda>d. includesStr (toLowerCase d)
                               (toLowerCase (the (domain requirements)))) (the domains)
            then s2 + 0.2 else s2)
      else s2)"
  have score: "scoreDomainMatch job requirements = min 1 s3"
    by (simp only: scoreDomainMatch_def Let_def s3_def s2_def wstep_def s1_def
        industry_def domains_def)
  have 1: "0 \<le> s1"
    by (simp add: s1_def)
  have w: "s1 \<le> wstep w" if "relevanceWeights job = Some w" for w
  proof -
    from assms that have "0 \<le> orZero (weight_mobile w)" "0 \<le> orZero (weight_startup w)"
      "0 \<le> orZero (weight_enterprise w)" "0 \<le> orZero (weight_leadership w)"
      by (simp_all add: validRelevanceWeights_def orZero_nonneg)
    then have m: "0 \<le> orZero (weight_mobile w) * 0.1" "0 \<le> orZero (weight_startup w) * 0.15"
      "0 \<le> orZero (weight_enterprise w) * 0.15" "0 \<le> orZero (weight_leadership w) * 0.1"
      by simp_all
    define a where "a = (if domain requirements = Some ''fintech''
                      \<or> domain requirements = Some ''crypto''
                   then s1 + orZero (weight_mobile w) * 0.1 else s1)"
    define b where "b = (if companyType requirements = Some ''startup''
                      \<or> companyType requirements = Some ''scaleup''
                   then a + orZero (weight_startup w) * 0.15 else a)"
    define c where "c = (if companyType requirements = Some ''enterprise''
                      \<or> companyType requirements = Some ''faang''
                   then b + orZero (weight_enterprise w) * 0.15 else b)"
    define d where "d = (if leadershipRequired requirements
                   then c + orZero (weight_leadership w) * 0.1 else c)"
    have "s1 \<le> a" "a \<le> b" "b \<le> c" "c \<le> d"
      unfolding a_def b_def c_def d_def using m by (simp_all only: add_if_nonneg)
    moreover have "wstep w = d"
      by (simp only: wstep_def Let_def a_def b_def c_def d_def)
    ultimately show ?thesis
      by linarith
  qed
  have 2: "s1 \<le> s2"
    using w by (simp add: s2_def split: option.splits)
  have 3: "s2 \<le> s3"
    by (simp add: s3_def)
  from 1 2 3 have "0 \<le> s3"
    by linarith
  then show ?thesis
    unfolding score by (rule inUnit_min)
qed

lemma inUnit_if: "(c \<Longrightarrow> inUnit a) \<Longrightarrow> (\<not> c \<Longrightarrow> inUnit b) \<Longrightarrow> inUnit (if c then a else b)"
  by simp

lemma scoreSeniorityMatch_inUnit: "inUnit (scoreSeniorityMatch job requirements)"
proof -
  have k: "inUnit (max 0.3 (0.7 - real_of_int k * 0.15))" if "0 \<le> k" for k :: int
  proof -
    from that have "0 \<le> real_of_int k * 0.15"
      by simp
    then show ?thesis
      by (simp add: inUnit_def)
  qed
  have u: "inUnit 0.5" "inUnit 1.0" "inUnit 0.9" "inUnit 0.7" "inUnit 0.8"
    by (simp_all add: inUnit_def)
  show ?thesis
    unfolding scoreSeniorityMatch_def Let_def
    by (intro inUnit_if u k) simp
qed

lemma scoreRecency_inUnit:
  assumes "0 \<le> recencyDecay config" and "getJobEndYear currentYear job = Some y"
  shows "\<exists>r. scoreRecency currentYear job config = Some r \<and> inUnit r"
proof (cases "currentYear - y \<le> 2")
  case True
  with assms(2) show ?thesis
    by (simp add: scoreRecency_def inUnit_def)
next
  case False
  then have "0 \<le> recencyDecay config * real_of_int (currentYear - y - 2)"
    using assms(1) by simp
  with False assms(2) show ?thesis
    by (simp add: scoreRecency_def Let_def inUnit_def)
qed

lemma average_inUnit:
  "\<forall>x\<in>set xs. inUnit x \<Longrightarrow> xs \<noteq> [] \<Longrightarrow> inUnit (sum_list xs / real (length xs))"
proof -
  assume a: "\<forall>x\<in>set xs. inUnit x" and n: "xs \<noteq> []"
  from a have "0 \<le> sum_list xs \<and> sum_list xs \<le> real (length xs)"
    by (induction xs) (auto simp: inUnit_def)
  with n show ?thesis
    by (simp add: inUnit_def)
qed

lemma nonZeroWeights_valid:
  "list_all validWeight ws \<Longrightarrow> \<forall>x\<in>set (nonZeroWeights ws). inUnit x"
  by (induction ws) (auto simp: nonZeroWeights_def validWeight_def split: option.splits)

lemma scoreRelevanceWeights_inUnit:
  assumes "validRelevanceWeights job"
  shows "inUnit (scoreRelevanceWeights job requirements)"
proof (cases "relevanceWeights job")
  case None
  then show ?thesis
    by (simp add: scoreRelevanceWeights_def inUnit_def)
next
  case (Some w)
  with assms have "list_all validWeight (applicableWeights w requirements)"
    by (simp add: validRelevanceWeights_def applicableWeights_def)
  then have "\<forall>x\<in>set (nonZeroWeights (applicableWeights w requirements)). inUnit x"
    by (rule nonZeroWeights_valid)
  then show ?thesis
    unfolding scoreRelevanceWeights_average [OF Some]
    by (simp add: average_inUnit) (simp add: inUnit_def)
qed

lemma roundHalfEven_error: "\<bar>of_int (roundHalfEven q) - q\<bar> \<le> 1 / 2"
  unfolding roundHalfEven_def Let_def by (auto simp: abs_le_iff)

lemma roundHalfEven_nonneg: "0 \<le> q \<Longrightarrow> 0 \<le> roundHalfEven q"
  unfolding roundHalfEven_def Let_def by (auto simp: add_nonneg_nonneg)

lemma roundToDouble_nonneg: "0 \<le> x \<Longrightarrow> 0 \<le> roundToDouble x"
  by (simp add: roundToDouble_def roundHalfEven_nonneg)

lemma doubleExponent_le: "\<bar>x\<bar> \<le> 2 \<Longrightarrow> x \<noteq> 0 \<Longrightarrow> doubleExponent x \<le> 1"
proof -
  assume a: "\<bar>x\<bar> \<le> 2" "x \<noteq> 0"
  then have "log 2 \<bar>x\<bar> \<le> log 2 2"
    by (subst log_le_cancel_iff) simp_all
  then have "\<lfloor>log 2 \<bar>x\<bar>\<rfloor> \<le> 1"
    by (simp add: floor_le_iff)
  then show ?thesis
    by (simp add: doubleExponent_def)
qed

text \<open>Up to 2 the doubles are at most \<open>2 powr - 51\<close> apart.\<close>

lemma roundToDouble_error:
  assumes "\<bar>x\<bar> \<le> 2"
  shows "\<bar>roundToDouble x - x\<bar> \<le> 1 / 2 ^ 52"
proof (cases "x = 0")
  case True
  then show ?thesis by (simp add: roundToDouble_def)
next
  case False
  define u :: real where "u = 2 powr of_int (doubleExponent x - 52)"
  define n :: real where "n = of_int (roundHalfEven (x / u))"
  have upos: "0 < u"
    by (simp add: u_def)
  from doubleExponent_le [OF assms False] have "real_of_int (doubleExponent x - 52) \<le> - 51"
    by simp
  then have "u \<le> 2 powr (- 51)"
    unfolding u_def by (subst powr_le_cancel_iff) simp_all
  also have "(2 :: real) powr (- 51) = 1 / 2 ^ 51"
    by (simp add: powr_minus inverse_eq_divide)
  finally have ule: "u \<le> 1 / 2 ^ 51" .
  have r: "roundToDouble x = n * u"
    using False by (simp only: roundToDouble_def u_def n_def if_False)
  have "x = x / u * u"
    using upos by simp
  then have "n * u - x = (n - x / u) * u"
    by (simp only: left_diff_distrib)
  then have "\<bar>roundToDouble x - x\<bar> = \<bar>n - x / u\<bar> * u"
    using upos by (simp only: r abs_mult abs_of_pos)
  also have "\<dots> \<le> 1 / 2 * u"
    using roundHalfEven_error [of "x / u"] upos unfolding n_def
    by (rule mult_right_mono [OF _ less_imp_le])
  also have "\<dots> \<le> 1 / 2 * (1 / 2 ^ 51)"
    using ule by (rule mult_left_mono) simp
  finally show ?thesis
    by simp
qed

text \<open>The double nearest to a number between \<open>2 powr e\<close> and \<open>2 powr (e + 1)\<close>.\<close>

lemma roundToDouble_ulp:
  assumes "u = 2 powr of_int (e - 52)" and "2 powr of_int e \<le> \<bar>x\<bar>"
    and "\<bar>x\<bar> < 2 powr of_int (e + 1)" and "- 1022 \<le> e"
  shows "roundToDouble x = of_int (roundHalfEven (x / u)) * u"
proof -
  have pos: "0 < \<bar>x\<bar>"
    using assms(2) by (rule less_le_trans [rotated]) simp
  have "of_int e \<le> log 2 \<bar>x\<bar>"
    using assms(2) pos by (simp add: le_log_iff)
  moreover have "log 2 \<bar>x\<bar> < of_int e + 1"
    using assms(3) pos by (simp add: log_less_iff)
  ultimately have "\<lfloor>log 2 \<bar>x\<bar>\<rfloor> = e"
    by (simp add: floor_unique)
  with assms(4) have "doubleExponent x = e"
    by (simp add: doubleExponent_def)
  with pos assms(1) show ?thesis
    by (simp add: roundToDouble_def)
qed

lemma roundToDouble_step:
  assumes "0 \<le> x" and "x \<le> 2"
  shows "0 \<le> roundToDouble x \<and> roundToDouble x \<le> x + 1 / 2 ^ 52"
proof -
  from assms have "\<bar>roundToDouble x - x\<bar> \<le> 1 / 2 ^ 52"
    by (intro roundToDouble_error) simp
  then have "roundToDouble x - x \<le> 1 / 2 ^ 52"
    by (rule order_trans [OF abs_ge_self])
  with roundToDouble_nonneg [OF assms(1)] show ?thesis
    by linarith
qed

text \<open>
  Each of the nine operations of the weighted total adds at most \<open>1 / 2 ^ 52\<close> to the
  exact value.
\<close>

lemma weightedTotal_bounds:
  assumes a: "inUnit a" and b: "inUnit b" and c: "inUnit c" and d: "inUnit d"
    and e: "inUnit e"
    and w: "0 \<le> w_technology w" "0 \<le> w_domain w" "0 \<le> w_seniority w" "0 \<le> w_recency w"
      "0 \<le> w_relevance w"
    and sum: "w_technology w + w_domain w + w_seniority w + w_recency w + w_relevance w
                \<le> 1 + 1 / 2 ^ 52"
  shows "0 \<le> weightedTotal w a b c d e \<and> weightedTotal w a b c d e \<le> 1 + 10 / 2 ^ 52"
proof -
  define wa wb wc wd we where "wa = w_technology w" and "wb = w_domain w"
    and "wc = w_seniority w" and "wd = w_recency w" and "we = w_relevance w"
  note w' = w [folded wa_def wb_def wc_def wd_def we_def]
  note sum' = sum [folded wa_def wb_def wc_def wd_def we_def]
  have prod: "0 \<le> x * v \<and> x * v \<le> v" if "inUnit x" "0 \<le> v" for x v :: real
    using that by (simp add: inUnit_def mult_left_le_one_le)
  have small: "(1 :: real) / 2 ^ 52 \<le> 1 / 2"
    by simp
  have le1: "wa \<le> 3 / 2" "wb \<le> 3 / 2" "wc \<le> 3 / 2" "wd \<le> 3 / 2" "we \<le> 3 / 2"
    using w' sum' small by linarith+
  define p1 p2 p3 p4 p5 where "p1 = doubleMul a wa" and "p2 = doubleMul b wb"
    and "p3 = doubleMul c wc" and "p4 = doubleMul d wd" and "p5 = doubleMul e we"
  have p1: "0 \<le> p1 \<and> p1 \<le> wa + 1 / 2 ^ 52"
    using roundToDouble_step [of "a * wa"] prod [OF a w'(1)] le1(1)
    unfolding p1_def doubleMul_def by linarith
  have p2: "0 \<le> p2 \<and> p2 \<le> wb + 1 / 2 ^ 52"
    using roundToDouble_step [of "b * wb"] prod [OF b w'(2)] le1(2)
    unfolding p2_def doubleMul_def by linarith
  have p3: "0 \<le> p3 \<and> p3 \<le> wc + 1 / 2 ^ 52"
    using roundToDouble_step [of "c * wc"] prod [OF c w'(3)] le1(3)
    unfolding p3_def doubleMul_def by linarith
  have p4: "0 \<le> p4 \<and> p4 \<le> wd + 1 / 2 ^ 52"
    using roundToDouble_step [of "d * wd"] prod [OF d w'(4)] le1(4)
    unfolding p4_def doubleMul_def by linarith
  have p5: "0 \<le> p5 \<and> p5 \<le> we + 1 / 2 ^ 52"
    using roundToDouble_step [of "e * we"] prod [OF e w'(5)] le1(5)
    unfolding p5_def doubleMul_def by linarith
  define s1 s2 s3 s4 where "s1 = doubleAdd p1 p2" and "s2 = doubleAdd s1 p3"
    and "s3 = doubleAdd s2 p4" and "s4 = doubleAdd s3 p5"
  have s1: "0 \<le> s1 \<and> s1 \<le> wa + wb + 3 / 2 ^ 52"
    using roundToDouble_step [of "p1 + p2"] p1 p2 w' sum'
    unfolding s1_def doubleAdd_def by simp
  have s2: "0 \<le> s2 \<and> s2 \<le> wa + wb + wc + 5 / 2 ^ 52"
    using roundToDouble_step [of "s1 + p3"] s1 p3 w' sum'
    unfolding s2_def doubleAdd_def by simp
  have s3: "0 \<le> s3 \<and> s3 \<le> wa + wb + wc + wd + 7 / 2 ^ 52"
    using roundToDouble_step [of "s2 + p4"] s2 p4 w' sum'
    unfolding s3_def doubleAdd_def by simp
  have s4: "0 \<le> s4 \<and> s4 \<le> wa + wb + wc + wd + we + 9 / 2 ^ 52"
    using roundToDouble_step [of "s3 + p5"] s3 p5 w' sum'
    unfolding s4_def doubleAdd_def by simp
  have "weightedTotal w a b c d e = s4"
    by (simp only: weightedTotal_def s4_def s3_def s2_def s1_def p1_def p2_def p3_def p4_def
        p5_def wa_def wb_def wc_def wd_def we_def)
  with s4 sum' show ?thesis
    by simp
qed

text \<open>The values of the weighted total that the examples need.\<close>

lemma roundToDouble_values:
  "roundToDouble 0 = 0" "roundToDouble (- (1 / 2)) = - (1 / 2)" "roundToDouble 2 = 2"
  "roundToDouble (3 / 2) = 3 / 2"
proof -
  show "roundToDouble 0 = 0"
    by (simp add: roundToDouble_def)
  show "roundToDouble (- (1 / 2)) = - (1 / 2)"
    by (subst roundToDouble_ulp [where e = "- 1" and u = "1 / 2 ^ 53"])
      (simp_all add: powr_minus inverse_eq_divide roundHalfEven_def Let_def)
  show "roundToDouble 2 = 2"
    by (subst roundToDouble_ulp [where e = 1 and u = "1 / 2 ^ 51"])
      (simp_all add: powr_minus inverse_eq_divide roundHalfEven_def Let_def)
  show "roundToDouble (3 / 2) = 3 / 2"
    by (subst roundToDouble_ulp [where e = 0 and u = "1 / 2 ^ 52"])
      (simp_all add: powr_minus inverse_eq_divide roundHalfEven_def Let_def)
qed

lemma weightedTotal_negative_weight:
  "weightedTotal (weights negativeWeightConfig) (1 / 2) (1 / 2) 1 1 (1 / 2) = 3 / 2"
  by (simp add: weightedTotal_def negativeWeightConfig_def doubleAdd_def doubleMul_def
      roundToDouble_values)

text \<open>
  With the weights 0.1, 0.2, 0.3, 0.3 and 0.1 and five sub-scores 1 the sums are
  0.30000000000000004, 0.6000000000000001, 0.9000000000000001 and 1.0000000000000002:
  the first, the second and the third sum are halfway between two doubles and go to the
  even one, which is the upper one.
\<close>

lemma weightedTotal_rounded_weights:
  "weightedTotal (weights roundedWeightConfig) 1 1 1 1 1 = 1 + 1 / 2 ^ 52"
proof -
  have w: "w_technology (weights roundedWeightConfig) = 3602879701896397 / 2 ^ 55"
    "w_domain (weights roundedWeightConfig) = 3602879701896397 / 2 ^ 54"
    "w_seniority (weights roundedWeightConfig) = 5404319552844595 / 2 ^ 54"
    "w_recency (weights roundedWeightConfig) = 5404319552844595 / 2 ^ 54"
    "w_relevance (weights roundedWeightConfig) = 3602879701896397 / 2 ^ 55"
    by (simp_all add: roundedWeightConfig_def)
  have p1: "doubleMul 1 (3602879701896397 / 2 ^ 55) = 3602879701896397 / 2 ^ 55"
    unfolding doubleMul_def
    by (subst roundToDouble_ulp [where e = "- 4" and u = "1 / 2 ^ 56"])
      (simp_all add: powr_minus inverse_eq_divide roundHalfEven_def Let_def)
  have p2: "doubleMul 1 (3602879701896397 / 2 ^ 54) = 3602879701896397 / 2 ^ 54"
    unfolding doubleMul_def
    by (subst roundToDouble_ulp [where e = "- 3" and u = "1 / 2 ^ 55"])
      (simp_all add: powr_minus inverse_eq_divide roundHalfEven_def Let_def)
  have p3: "doubleMul 1 (5404319552844595 / 2 ^ 54) = 5404319552844595 / 2 ^ 54"
    unfolding doubleMul_def
    by (subst roundToDouble_ulp [where e = "- 2" and u = "1 / 2 ^ 54"])
      (simp_all add: powr_minus inverse_eq_divide roundHalfEven_def Let_def)
  have s1: "doubleAdd (3602879701896397 / 2 ^ 55) (3602879701896397 / 2 ^ 54)
              = 5404319552844596 / 2 ^ 54"
    unfolding doubleAdd_def
    by (subst roundToDouble_ulp [where e = "- 2" and u = "1 / 2 ^ 54"])
      (simp_all add: powr_minus inverse_eq_divide roundHalfEven_def Let_def)
  have s2: "doubleAdd (5404319552844596 / 2 ^ 54) (5404319552844595 / 2 ^ 54)
              = 5404319552844596 / 2 ^ 53"
    unfolding doubleAdd_def
    by (subst roundToDouble_ulp [where e = "- 1" and u = "1 / 2 ^ 53"])
      (simp_all add: powr_minus inverse_eq_divide roundHalfEven_def Let_def)
  have s3: "doubleAdd (5404319552844596 / 2 ^ 53) (5404319552844595 / 2 ^ 54)
              = 8106479329266894 / 2 ^ 53"
    unfolding doubleAdd_def
    by (subst roundToDouble_ulp [where e = "- 1" and u = "1 / 2 ^ 53"])
      (simp_all add: powr_minus inverse_eq_divide roundHalfEven_def Let_def)
  have s4: "doubleAdd (8106479329266894 / 2 ^ 53) (3602879701896397 / 2 ^ 55)
              = 1 + 1 / 2 ^ 52"
    unfolding doubleAdd_def
    by (subst roundToDouble_ulp [where e = 0 and u = "1 / 2 ^ 52"])
      (simp_all add: powr_minus inverse_eq_divide roundHalfEven_def Let_def)
  show ?thesis
    by (simp only: weightedTotal_def w p1 p2 p3 s1 s2 s3 s4)
qed

lemma Let_invariant: "P a \<Longrightarrow> (\<And>x. P x \<Longrightarrow> Q (f x)) \<Longrightarrow> Q (Let a f)"
  by simp

lemma Let_any: "(\<And>x. Q (f x)) \<Longrightarrow> Q (Let a f)"
  by simp

lemma scoreProject_inUnit: "inUnit (sp_score (scoreProject project requirements))"
  unfolding scoreProject_def
  apply (rule Let_invariant [where P = "\<lambda>st :: real \<times> string list. 0.5 \<le> fst st"
        and Q = "\<lambda>v. inUnit (sp_score v)"])
   apply simp
  apply (rule Let_any [where Q = "\<lambda>v. inUnit (sp_score v)"])
  apply (rule Let_invariant [where P = "\<lambda>st :: real \<times> string list. 0.5 \<le> fst st"
        and Q = "\<lambda>v. inUnit (sp_score v)"])
   apply simp
  apply (rule Let_invariant [where P = "\<lambda>st :: real \<times> string list. 0.5 \<le> fst st"
        and Q = "\<lambda>v. inUnit (sp_score v)"])
   apply (simp add: Let_def)
  apply (rule Let_invariant [where P = "\<lambda>st :: real \<times> string list. 0.5 \<le> fst st"
        and Q = "\<lambda>v. inUnit (sp_score v)"])
   apply (simp split: option.splits)
  apply (simp add: inUnit_def)
  done

lemma scoreAchievement_inUnit: "inUnit (sa_score (scoreAchievement achievement requirements))"
  unfolding scoreAchievement_def
  apply (rule Let_invariant [where P = "\<lambda>st :: real \<times> string list. 0.5 \<le> fst st"
        and Q = "\<lambda>v. inUnit (sa_score v)"])
   apply simp
  apply (rule Let_any [where Q = "\<lambda>v. inUnit (sa_score v)"])
  apply (rule Let_any [where Q = "\<lambda>v. inUnit (sa_score v)"])
  apply (rule Let_invariant [where P = "\<lambda>st :: real \<times> string list. 0.5 \<le> fst st"
        and Q = "\<lambda>v. inUnit (sa_score v)"])
   apply simp
  apply (rule Let_invariant [where P = "\<lambda>st :: real \<times> string list. 0.5 \<le> fst st"
        and Q = "\<lambda>v. inUnit (sa_score v)"])
   apply simp
  apply (rule Let_invariant [where P = "\<lambda>st :: real \<times> string list. 0.5 \<le> fst st"
        and Q = "\<lambda>v. inUnit (sa_score v)"])
   apply (simp add: Let_def)
  apply (rule Let_invariant [where P = "\<lambda>st :: real \<times> string list. 0.5 \<le> fst st"
        and Q = "\<lambda>v. inUnit (sa_score v)"])
   apply simp
  apply (rule Let_invariant [where P = "\<lambda>st :: real \<times> string list. 0.5 \<le> fst st"
        and Q = "\<lambda>v. inUnit (sa_score v)"])
   apply simp
  apply (simp add: inUnit_def)
  done

lemma levelScores_nonneg: "0 \<le> levelScores l"
  by (cases l) (simp_all add: levelScores_def)

lemma calculateSkillScore_inUnit:
  "inUnit (calculateSkillScore currentYear skill skills isReq isPref)"
  unfolding calculateSkillScore_def
  apply (rule Let_invariant [where P = "\<lambda>s :: real. 0 \<le> s" and Q = inUnit])
   apply simp
  apply (rule Let_invariant [where P = "\<lambda>s :: real. 0 \<le> s" and Q = inUnit])
   apply simp
  apply (rule Let_invariant [where P = "\<lambda>s :: real. 0 \<le> s" and Q = inUnit])
   apply (simp add: levelScores_nonneg)
  apply (rule Let_any [where Q = inUnit])
  apply (rule Let_invariant [where P = "\<lambda>s :: real. 0 \<le> s" and Q = inUnit])
   apply simp
  apply (rule Let_invariant [where P = "\<lambda>s :: real. 0 \<le> s" and Q = inUnit])
   apply simp
  apply (rule Let_invariant [where P = "\<lambda>s :: real. 0 \<le> s" and Q = inUnit])
   apply simp
  apply (rule Let_invariant [where P = "\<lambda>s :: real. 0 \<le> s" and Q = inUnit])
   apply simp
  apply (simp add: inUnit_def)
  done

lemma scoreJob_scores:
  "scores (scoreJob currentYear job requirements config)
     = \<lparr> technologyMatch = scoreTechnologyMatch job requirements,
         domainMatch = scoreDomainMatch job requirements,
         seniorityMatch = scoreSeniorityMatch job requirements,
         recency = scoreRecency currentYear job config,
         relevanceWeight = scoreRelevanceWeights job requirements \<rparr>"
  by (simp add: scoreJob_def Let_def)

lemma scoreJob_totalScore:
  "totalScore (scoreJob currentYear job requirements config)
     = (case scoreRecency currentYear job config of
          None \<Rightarrow> None
        | Some r \<Rightarrow>
            Some (weightedTotal (weights config) (scoreTechnologyMatch job requirements)
                    (scoreDomainMatch job requirements) (scoreSeniorityMatch job requirements)
                    r (scoreRelevanceWeights job requirements)))"
  by (simp add: scoreJob_def Let_def)

lemma selectProjects_inUnit:
  "p \<in> set (selectProjects jobs requirements config) \<Longrightarrow> inUnit (sp_score p)"
proof -
  assume "p \<in> set (selectProjects jobs requirements config)"
  then have "p \<in> set (concat (map (\<lambda>job. map (\<lambda>project. scoreProject project requirements)
                                          (projects job)) jobs))"
    unfolding selectProjects_def Let_def by (auto dest: in_set_takeD simp: set_sortBy)
  then show ?thesis
    by (auto simp: scoreProject_inUnit)
qed

lemma selectAchievements_inUnit:
  "a \<in> set (selectAchievements jobs requirements config) \<Longrightarrow> inUnit (sa_score a)"
proof -
  assume "a \<in> set (selectAchievements jobs requirements config)"
  then have "a \<in> set (concat (map (\<lambda>job. map (\<lambda>achievement.
                     scoreAchievement achievement requirements) (achievements job)) jobs))"
    unfolding selectAchievements_def Let_def by (auto dest: in_set_takeD simp: set_sortBy)
  then show ?thesis
    by (auto simp: scoreAchievement_inUnit)
qed

lemma selectSkills_inUnit:
  "s \<in> set (selectSkills currentYear skills requirements config) \<Longrightarrow> inUnit (ss_score s)"
proof -
  assume "s \<in> set (selectSkills currentYear skills requirements config)"
  then have "s \<in> set (scoredSkills currentYear skills requirements)"
    unfolding selectSkills_def Let_def by (auto dest: in_set_takeD simp: set_sortBy)
  then show ?thesis
    by (auto simp: scoredSkills_def Let_def calculateSkillScore_inUnit)
qed

text \<open>
  C2, as stated, fails, in three ways.
  \<^item> The five weights of \<open>negativeWeightConfig\<close> sum to 1 and the job supplies no
    relevance weight, yet the total score is 1.5: nothing in the code keeps a weight from
    being negative.
  \<^item> The five weights of \<open>roundedWeightConfig\<close> are the doubles 0.1, 0.2, 0.3, 0.3 and
    0.1; none is negative and their sum is 1. Each sub-score of \<open>perfectJob\<close> is 1, and
    the total score is 1.0000000000000002: the sum of the code is a sum of doubles, and it
    is not capped.
  \<^item> A job whose end date holds no year (here \<^verbatim>\<open>Present\<close>) has no recency score:
    \<^verbatim>\<open>parseInt\<close> gives \<^verbatim>\<open>NaN\<close>, and so do \<open>scoreRecency\<close> and the total.
\<close>

theorem scores_in_unit_interval_counterexample:
  "validRelevanceWeights exampleJob
   \<and> 0 \<le> recencyDecay negativeWeightConfig
   \<and> w_technology (weights negativeWeightConfig) + w_domain (weights negativeWeightConfig)
       + w_seniority (weights negativeWeightConfig) + w_recency (weights negativeWeightConfig)
       + w_relevance (weights negativeWeightConfig) = 1
   \<and> totalScore
         (scoreJob 2026 exampleJob (exampleRequirements\<lparr>requiredTechnologies := []\<rparr>)
            negativeWeightConfig) = Some 1.5
   \<and> \<not> inUnit 1.5
   \<and> validRelevanceWeights perfectJob
   \<and> 0 \<le> recencyDecay roundedWeightConfig
   \<and> w_technology (weights roundedWeightConfig) + w_domain (weights roundedWeightConfig)
       + w_seniority (weights roundedWeightConfig) + w_recency (weights roundedWeightConfig)
       + w_relevance (weights roundedWeightConfig) = 1
   \<and> 0 \<le> w_technology (weights roundedWeightConfig)
   \<and> 0 \<le> w_domain (weights roundedWeightConfig)
   \<and> 0 \<le> w_seniority (weights roundedWeightConfig)
   \<and> 0 \<le> w_recency (weights roundedWeightConfig)
   \<and> 0 \<le> w_relevance (weights roundedWeightConfig)
   \<and> scores (scoreJob 2026 perfectJob perfectRequirements roundedWeightConfig)
       = \<lparr> technologyMatch = 1, domainMatch = 1, seniorityMatch = 1, recency = Some 1,
           relevanceWeight = 1 \<rparr>
   \<and> totalScore (scoreJob 2026 perfectJob perfectRequirements roundedWeightConfig)
       = Some (1 + 1 / 2 ^ 52)
   \<and> \<not> inUnit (1 + 1 / 2 ^ 52)
   \<and> recency
         (scores (scoreJob 2026 (exampleJob\<lparr>endDate := Some ''Present''\<rparr>)
                    exampleRequirements DEFAULT_MATCH_CONFIG)) = None
   \<and> totalScore
         (scoreJob 2026 (exampleJob\<lparr>endDate := Some ''Present''\<rparr>)
            exampleRequirements DEFAULT_MATCH_CONFIG) = None"
proof -
  have v: "validRelevanceWeights exampleJob"
    by (simp add: validRelevanceWeights_def exampleJob_def)
  have t: "scoreTechnologyMatch exampleJob (exampleRequirements\<lparr>requiredTechnologies := []\<rparr>)
             = 1 / 2"
    by (simp add: scoreTechnologyMatch_def exampleRequirements_def Let_def)
  have d: "scoreDomainMatch exampleJob (exampleRequirements\<lparr>requiredTechnologies := []\<rparr>)
             = 1 / 2"
    by (simp add: scoreDomainMatch_def exampleJob_def truthy_def Let_def)
  have s: "scoreSeniorityMatch exampleJob (exampleRequirements\<lparr>requiredTechnologies := []\<rparr>)
             = 1"
    by (simp add: scoreSeniorityMatch_def exampleJob_def exampleRequirements_def
        levelOrder_def Let_def)
  have r: "scoreRecency 2026 exampleJob config = Some 1" for config
    by (simp add: scoreRecency_def getJobEndYear_def exampleJob_def)
  have w: "scoreRelevanceWeights exampleJob (exampleRequirements\<lparr>requiredTechnologies := []\<rparr>)
             = 1 / 2"
    by (simp add: scoreRelevanceWeights_def exampleJob_def)
  have n: "scoreRecency 2026 (exampleJob\<lparr>endDate := Some ''Present''\<rparr>) config = None"
    for config
    by (simp add: scoreRecency_def getJobEndYear_def parseInt_def isWhitespace_def isDigit_def
        Let_def)
  have neg: "totalScore
         (scoreJob 2026 exampleJob (exampleRequirements\<lparr>requiredTechnologies := []\<rparr>)
            negativeWeightConfig) = Some 1.5"
    by (simp add: scoreJob_totalScore t d s r w weightedTotal_negative_weight)
  have pv: "validRelevanceWeights perfectJob"
    by (simp add: validRelevanceWeights_def validWeight_def inUnit_def perfectJob_def)
  have pt: "scoreTechnologyMatch perfectJob perfectRequirements = 1"
    by (simp add: scoreTechnologyMatch_def findMatchingTechs_def techMatches_def
        perfectJob_def perfectRequirements_def exampleRequirements_def Let_def)
  have pd: "scoreDomainMatch perfectJob perfectRequirements = 1"
    by (simp add: scoreDomainMatch_def perfectJob_def perfectRequirements_def
        exampleRequirements_def truthy_def orZero_def toLowerCase_def toLowerChar_ascii
        Let_def)
  have ps: "scoreSeniorityMatch perfectJob perfectRequirements = 1"
    by (simp add: scoreSeniorityMatch_def perfectJob_def perfectRequirements_def
        exampleJob_def exampleRequirements_def levelOrder_def Let_def)
  have pr: "scoreRecency 2026 perfectJob config = Some 1" for config
    by (simp add: scoreRecency_def getJobEndYear_def perfectJob_def exampleJob_def)
  have pw: "scoreRelevanceWeights perfectJob perfectRequirements = 1"
    by (simp add: scoreRelevanceWeights_def perfectJob_def perfectRequirements_def
        exampleRequirements_def addWeight_def mobileTechs_def truthyNumber_def
        techMatches_def Let_def)
  have rnd: "totalScore (scoreJob 2026 perfectJob perfectRequirements roundedWeightConfig)
       = Some (1 + 1 / 2 ^ 52)"
    by (simp only: scoreJob_totalScore pt pd ps pr pw weightedTotal_rounded_weights
        option.case)
  have sc: "scores (scoreJob 2026 perfectJob perfectRequirements roundedWeightConfig)
       = \<lparr> technologyMatch = 1, domainMatch = 1, seniorityMatch = 1, recency = Some 1,
           relevanceWeight = 1 \<rparr>"
    by (simp only: scoreJob_scores pt pd ps pr pw)
  have cfg: "0 \<le> recencyDecay negativeWeightConfig"
    "w_technology (weights negativeWeightConfig) + w_domain (weights negativeWeightConfig)
       + w_seniority (weights negativeWeightConfig) + w_recency (weights negativeWeightConfig)
       + w_relevance (weights negativeWeightConfig) = 1"
    "0 \<le> recencyDecay roundedWeightConfig"
    "w_technology (weights roundedWeightConfig) + w_domain (weights roundedWeightConfig)
       + w_seniority (weights roundedWeightConfig) + w_recency (weights roundedWeightConfig)
       + w_relevance (weights roundedWeightConfig) = 1"
    "0 \<le> w_technology (weights roundedWeightConfig)"
    "0 \<le> w_domain (weights roundedWeightConfig)"
    "0 \<le> w_seniority (weights roundedWeightConfig)"
    "0 \<le> w_recency (weights roundedWeightConfig)"
    "0 \<le> w_relevance (weights roundedWeightConfig)"
    by (simp_all add: negativeWeightConfig_def roundedWeightConfig_def
        DEFAULT_MATCH_CONFIG_def)
  have u: "\<not> inUnit 1.5" "\<not> inUnit (1 + 1 / 2 ^ 52)"
    by (simp_all add: inUnit_def)
  have nan: "recency
         (scores (scoreJob 2026 (exampleJob\<lparr>endDate := Some ''Present''\<rparr>)
                    exampleRequirements DEFAULT_MATCH_CONFIG)) = None"
    "totalScore
         (scoreJob 2026 (exampleJob\<lparr>endDate := Some ''Present''\<rparr>)
            exampleRequirements DEFAULT_MATCH_CONFIG) = None"
    by (simp_all add: scoreJob_scores scoreJob_totalScore n)
  from v cfg neg u pv sc rnd nan show ?thesis
    by (intro conjI)
qed

text \<open>
  C2, amended. When every relevance weight the job supplies lies in the interval from 0 to
  1, the recency decay is not negative, and the five configured weights are not negative
  and sum to 1 (or to any number that is at most \<open>1 + 1 / 2 ^ 52\<close>: the doubles nearest
  to the default weights sum to a little less than 1), then the technology, domain,
  seniority and relevance-weight scores of the job lie in that interval; when the end year
  of the job is a number (the end date is absent, empty, or starts with a year), its
  recency score lies in that interval, and its total score is at least 0 and at most
  \<open>1 + 10 / 2 ^ 52\<close>, which is less than 1.000000000000003; the same bounds hold for the
  weighted total of any five sub-scores of that interval. Every project score, every
  achievement score and every skill score lies in the interval, also those in the lists
  that the selectors return.
\<close>

theorem scores_in_unit_interval:
  assumes "validRelevanceWeights job" and "0 \<le> recencyDecay config"
    and "w_technology (weights config) + w_domain (weights config)
         + w_seniority (weights config) + w_recency (weights config)
         + w_relevance (weights config) \<le> 1 + 1 / 2 ^ 52"
    and "0 \<le> w_technology (weights config)" and "0 \<le> w_domain (weights config)"
    and "0 \<le> w_seniority (weights config)" and "0 \<le> w_recency (weights config)"
    and "0 \<le> w_relevance (weights config)"
  shows "inUnit (technologyMatch (scores (scoreJob currentYear job requirements config)))
       \<and> inUnit (domainMatch (scores (scoreJob currentYear job requirements config)))
       \<and> inUnit (seniorityMatch (scores (scoreJob currentYear job requirements config)))
       \<and> inUnit (relevanceWeight (scores (scoreJob currentYear job requirements config)))
       \<and> (getJobEndYear currentYear job \<noteq> None \<longrightarrow>
            (\<exists>r. recency (scores (scoreJob currentYear job requirements config)) = Some r
                 \<and> inUnit r)
            \<and> (\<exists>t. totalScore (scoreJob currentYear job requirements config) = Some t
                 \<and> 0 \<le> t \<and> t \<le> 1 + 10 / 2 ^ 52))
       \<and> (\<forall>a b c d e. inUnit a \<and> inUnit b \<and> inUnit c \<and> inUnit d \<and> inUnit e \<longrightarrow>
            0 \<le> weightedTotal (weights config) a b c d e
            \<and> weightedTotal (weights config) a b c d e \<le> 1 + 10 / 2 ^ 52)
       \<and> inUnit (sp_score (scoreProject project requirements))
       \<and> inUnit (sa_score (scoreAchievement achievement requirements))
       \<and> inUnit (calculateSkillScore currentYear skill skills isReq isPref)
       \<and> (\<forall>p\<in>set (selectProjects jobs requirements config). inUnit (sp_score p))
       \<and> (\<forall>a\<in>set (selectAchievements jobs requirements config). inUnit (sa_score a))
       \<and> (\<forall>s\<in>set (selectSkills currentYear skills requirements config). inUnit (ss_score s))"
proof -
  note t = scoreTechnologyMatch_inUnit [of job requirements]
  note d = scoreDomainMatch_inUnit [OF assms(1), of requirements]
  note s = scoreSeniorityMatch_inUnit [of job requirements]
  note w = scoreRelevanceWeights_inUnit [OF assms(1), of requirements]
  have total: "0 \<le> weightedTotal (weights config) a b c d e
            \<and> weightedTotal (weights config) a b c d e \<le> 1 + 10 / 2 ^ 52"
    if "inUnit a \<and> inUnit b \<and> inUnit c \<and> inUnit d \<and> inUnit e" for a b c d e
    using that by (intro weightedTotal_bounds assms(3-8)) simp_all
  have job: "(\<exists>r. recency (scores (scoreJob currentYear job requirements config)) = Some r
                 \<and> inUnit r)
            \<and> (\<exists>t. totalScore (scoreJob currentYear job requirements config) = Some t
                 \<and> 0 \<le> t \<and> t \<le> 1 + 10 / 2 ^ 52)"
    if "getJobEndYear currentYear job \<noteq> None"
  proof -
    from that obtain y where "getJobEndYear currentYear job = Some y"
      by auto
    from scoreRecency_inUnit [OF assms(2) this]
    obtain r where r: "scoreRecency currentYear job config = Some r" "inUnit r"
      by auto
    from total [of "scoreTechnologyMatch job requirements" "scoreDomainMatch job requirements"
        "scoreSeniorityMatch job requirements" r "scoreRelevanceWeights job requirements"]
      t d s w r
    show ?thesis
      by (simp add: scoreJob_scores scoreJob_totalScore)
  qed
  from t d s w have sub:
    "inUnit (technologyMatch (scores (scoreJob currentYear job requirements config)))"
    "inUnit (domainMatch (scores (scoreJob currentYear job requirements config)))"
    "inUnit (seniorityMatch (scores (scoreJob currentYear job requirements config)))"
    "inUnit (relevanceWeight (scores (scoreJob currentYear job requirements config)))"
    by (simp_all add: scoreJob_scores)
  from sub job total scoreProject_inUnit [of project requirements]
    scoreAchievement_inUnit [of achievement requirements]
    calculateSkillScore_inUnit [of currentYear skill skills isReq isPref]
    selectProjects_inUnit [of _ jobs requirements config]
    selectAchievements_inUnit [of _ jobs requirements config]
    selectSkills_inUnit [of _ currentYear skills requirements config]
  show ?thesis
    by blast
qed

theorem scores_in_unit_interval_witness:
  "validRelevanceWeights (exampleJob\<lparr>relevanceWeights := Some exampleWeights\<rparr>)
   \<and> 0 \<le> recencyDecay DEFAULT_MATCH_CONFIG
   \<and> w_technology (weights DEFAULT_MATCH_CONFIG) + w_domain (weights DEFAULT_MATCH_CONFIG)
       + w_seniority (weights DEFAULT_MATCH_CONFIG) + w_recency (weights DEFAULT_MATCH_CONFIG)
       + w_relevance (weights DEFAULT_MATCH_CONFIG) \<le> 1 + 1 / 2 ^ 52
   \<and> 0 \<le> w_technology (weights DEFAULT_MATCH_CONFIG)
   \<and> 0 \<le> w_domain (weights DEFAULT_MATCH_CONFIG)
   \<and> 0 \<le> w_seniority (weights DEFAULT_MATCH_CONFIG)
   \<and> 0 \<le> w_recency (weights DEFAULT_MATCH_CONFIG)
   \<and> 0 \<le> w_relevance (weights DEFAULT_MATCH_CONFIG)
   \<and> getJobEndYear 2026 (exampleJob\<lparr>relevanceWeights := Some exampleWeights\<rparr>) \<noteq> None
   \<and> inUnit (technologyMatch (scores
         (scoreJob 2026 (exampleJob\<lparr>relevanceWeights := Some exampleWeights\<rparr>)
            exampleRequirements DEFAULT_MATCH_CONFIG)))
   \<and> inUnit (domainMatch (scores
         (scoreJob 2026 (exampleJob\<lparr>relevanceWeights := Some exampleWeights\<rparr>)
            exampleRequirements DEFAULT_MATCH_CONFIG)))
   \<and> inUnit (seniorityMatch (scores
         (scoreJob 2026 (exampleJob\<lparr>relevanceWeights := Some exampleWeights\<rparr>)
            exampleRequirements DEFAULT_MATCH_CONFIG)))
   \<and> inUnit (relevanceWeight (scores
         (scoreJob 2026 (exampleJob\<lparr>relevanceWeights := Some exampleWeights\<rparr>)
            exampleRequirements DEFAULT_MATCH_CONFIG)))
   \<and> (\<exists>r. recency (scores
         (scoreJob 2026 (exampleJob\<lparr>relevanceWeights := Some exampleWeights\<rparr>)
            exampleRequirements DEFAULT_MATCH_CONFIG)) = Some r \<and> inUnit r)
   \<and> (\<exists>t. totalScore
         (scoreJob 2026 (exampleJob\<lparr>relevanceWeights := Some exampleWeights\<rparr>)
            exampleRequirements DEFAULT_MATCH_CONFIG) = Some t
         \<and> 0 \<le> t \<and> t \<le> 1 + 10 / 2 ^ 52)
   \<and> inUnit 1
   \<and> weightedTotal (weights DEFAULT_MATCH_CONFIG) 1 1 1 1 1 \<le> 1 + 10 / 2 ^ 52
   \<and> inUnit (sp_score (scoreProject (exampleProjects ! 0) exampleRequirements))
   \<and> inUnit (sa_score (scoreAchievement (exampleAchievements ! 0) exampleRequirements))
   \<and> inUnit (calculateSkillScore 2026 (hd (getAllSkills exampleSkills)) exampleSkills
               True False)"
proof -
  let ?job = "exampleJob\<lparr>relevanceWeights := Some exampleWeights\<rparr>"
  have v: "validRelevanceWeights ?job"
    by (simp add: validRelevanceWeights_def validWeight_def inUnit_def exampleWeights_def)
  have c: "0 \<le> recencyDecay DEFAULT_MATCH_CONFIG"
    "w_technology (weights DEFAULT_MATCH_CONFIG) + w_domain (weights DEFAULT_MATCH_CONFIG)
       + w_seniority (weights DEFAULT_MATCH_CONFIG) + w_recency (weights DEFAULT_MATCH_CONFIG)
       + w_relevance (weights DEFAULT_MATCH_CONFIG) \<le> 1 + 1 / 2 ^ 52"
    "0 \<le> w_technology (weights DEFAULT_MATCH_CONFIG)"
    "0 \<le> w_domain (weights DEFAULT_MATCH_CONFIG)"
    "0 \<le> w_seniority (weights DEFAULT_MATCH_CONFIG)"
    "0 \<le> w_recency (weights DEFAULT_MATCH_CONFIG)"
    "0 \<le> w_relevance (weights DEFAULT_MATCH_CONFIG)"
    by (simp_all add: DEFAULT_MATCH_CONFIG_def)
  have y: "getJobEndYear 2026 ?job \<noteq> None"
    by (simp add: getJobEndYear_def exampleJob_def)
  have u: "inUnit 1"
    by (simp add: inUnit_def)
  note th = scores_in_unit_interval [OF v c, of 2026 exampleRequirements "exampleProjects ! 0"
      "exampleAchievements ! 0" "hd (getAllSkills exampleSkills)" exampleSkills True False
      "[]"]
  from th have sub:
    "inUnit (technologyMatch (scores (scoreJob 2026 ?job exampleRequirements
       DEFAULT_MATCH_CONFIG)))"
    "inUnit (domainMatch (scores (scoreJob 2026 ?job exampleRequirements
       DEFAULT_MATCH_CONFIG)))"
    "inUnit (seniorityMatch (scores (scoreJob 2026 ?job exampleRequirements
       DEFAULT_MATCH_CONFIG)))"
    "inUnit (relevanceWeight (scores (scoreJob 2026 ?job exampleRequirements
       DEFAULT_MATCH_CONFIG)))"
    "inUnit (sp_score (scoreProject (exampleProjects ! 0) exampleRequirements))"
    "inUnit (sa_score (scoreAchievement (exampleAchievements ! 0) exampleRequirements))"
    "inUnit (calculateSkillScore 2026 (hd (getAllSkills exampleSkills)) exampleSkills
       True False)"
    by - (elim conjE, assumption)+
  from th have "getJobEndYear 2026 ?job \<noteq> None \<longrightarrow>
      (\<exists>r. recency (scores (scoreJob 2026 ?job exampleRequirements DEFAULT_MATCH_CONFIG))
             = Some r \<and> inUnit r)
      \<and> (\<exists>t. totalScore (scoreJob 2026 ?job exampleRequirements DEFAULT_MATCH_CONFIG)
               = Some t \<and> 0 \<le> t \<and> t \<le> 1 + 10 / 2 ^ 52)"
    by (elim conjE)
  from this y have j:
    "(\<exists>r. recency (scores (scoreJob 2026 ?job exampleRequirements DEFAULT_MATCH_CONFIG))
             = Some r \<and> inUnit r)
      \<and> (\<exists>t. totalScore (scoreJob 2026 ?job exampleRequirements DEFAULT_MATCH_CONFIG)
               = Some t \<and> 0 \<le> t \<and> t \<le> 1 + 10 / 2 ^ 52)"
    by (rule mp)
  from th have "\<forall>a b c d e. inUnit a \<and> inUnit b \<and> inUnit c \<and> inUnit d \<and> inUnit e \<longrightarrow>
            0 \<le> weightedTotal (weights DEFAULT_MATCH_CONFIG) a b c d e
            \<and> weightedTotal (weights DEFAULT_MATCH_CONFIG) a b c d e \<le> 1 + 10 / 2 ^ 52"
    by (elim conjE)
  with u have t: "weightedTotal (weights DEFAULT_MATCH_CONFIG) 1 1 1 1 1 \<le> 1 + 10 / 2 ^ 52"
    by blast
  from v c y sub j u t show ?thesis
    by (intro conjI) (elim conjE, assumption)+
qed

end
